theory Spec2Isabelle
  imports Main
begin

section \<open>Values and strings shared by the page hooks and the collector\<close>

text \<open>
  A decoded JSON value, as \<open>JSON.parse\<close> in the page and \<open>json.loads\<close> in the collector
  produce it. Numbers are kept as integers: none of the code below computes with them.
\<close>

datatype json =
    JNull
  | JBool bool
  | JNum int
  | JStr string
  | JArr "json list"
  | JObj "(string \<times> json) list"

text \<open>
  One element of a json list of the capture: the dictionary
  \<open>{src: ..., url: ..., body: ...}\<close> that both sides build.
\<close>

record capture_event =
  src :: string
  url :: string
  body :: json

text \<open>
  \<open>toLowerCase()\<close> and \<open>str.lower()\<close> on the ASCII letters; every other character is
  unchanged.
\<close>

definition lower_char :: "char \<Rightarrow> char" where
  "lower_char c =
     (case map_of (zip ''ABCDEFGHIJKLMNOPQRSTUVWXYZ'' ''abcdefghijklmnopqrstuvwxyz'') c of
        Some d \<Rightarrow> d
      | None \<Rightarrow> c)"

definition to_lower :: "string \<Rightarrow> string" where
  "to_lower s = map lower_char s"

text \<open>\<open>hay.includes(needle)\<close> in the page, \<open>needle in hay\<close> in the collector.\<close>

fun includes_str :: "string \<Rightarrow> string \<Rightarrow> bool" where
  "includes_str [] needle = (needle = [])"
| "includes_str (c # cs) needle =
     (take (length needle) (c # cs) = needle \<or> includes_str cs needle)"

text \<open>\<open>s.endswith(t)\<close>.\<close>

definition endswith :: "string \<Rightarrow> string \<Rightarrow> bool" where
  "endswith s t = (length t \<le> length s \<and> drop (length s - length t) s = t)"

text \<open>
  A response as both observers see it: its URL, its \<open>content-type\<close> header when there
  is one, and its body text; \<open>None\<close> is a body that cannot be read (reading it rejects
  in the page and raises in the collector).
\<close>

record response =
  res_url :: string
  res_content_type :: "string option"
  res_text :: "string option"

text \<open>\<open>(res.headers.get('content-type') || '').toLowerCase()\<close>, the same on both sides.\<close>

definition content_type_of :: "response \<Rightarrow> string" where
  "content_type_of res =
     to_lower (case res_content_type res of None \<Rightarrow> [] | Some h \<Rightarrow> h)"


section \<open>The injected page script\<close>

text \<open>
  \<open>window.__CAPTURE__\<close>: the bucket the hooks push into, with its channels \<open>json\<close>,
  \<open>charts\<close> and \<open>canvasText\<close>. The chart and canvas entries are opaque values for
  everything proved here.
\<close>

record capture =
  cap_json :: "capture_event list"
  cap_charts :: "json list"
  cap_canvasText :: "json list"

definition push_json :: "capture_event \<Rightarrow> capture \<Rightarrow> capture" where
  "push_json e b = b\<lparr>cap_json := cap_json b @ [e]\<rparr>"

datatype js_error = SyntaxError | TypeError

text \<open>JavaScript truthiness and \<open>typeof\<close> of a decoded value.\<close>

fun truthy :: "json \<Rightarrow> bool" where
  "truthy JNull = False"
| "truthy (JBool b) = b"
| "truthy (JNum n) = (n \<noteq> 0)"
| "truthy (JStr s) = (s \<noteq> [])"
| "truthy (JArr xs) = True"
| "truthy (JObj kvs) = True"

fun typeof :: "json \<Rightarrow> string" where
  "typeof JNull = ''object''"
| "typeof (JBool b) = ''boolean''"
| "typeof (JNum n) = ''number''"
| "typeof (JStr s) = ''string''"
| "typeof (JArr xs) = ''object''"
| "typeof (JObj kvs) = ''object''"

text \<open>
  The hooked \<open>JSON.parse\<close>. \<open>native\<close> is the browser's own decoder \<open>_parse\<close> (with the
  caller's reviver, which the hook hands over untouched): \<open>None\<close> is the exception it
  throws, which the hook does not catch. The push happens after the decode and before the
  return.
\<close>

definition JSON_parse ::
  "(string \<Rightarrow> json option) \<Rightarrow> string \<Rightarrow> capture \<Rightarrow> (js_error + json) \<times> capture" where
  "JSON_parse native s b =
     (case native s of
        None \<Rightarrow> (Inl SyntaxError, b)
      | Some out \<Rightarrow>
          (Inr out,
           if truthy out \<and> typeof out = ''object''
           then push_json \<lparr>src = ''JSON.parse'', url = ''inline'', body = out\<rparr> b
           else b))"

text \<open>
  The hooked \<open>fetch\<close> returns \<open>res\<close> at once and leaves a continuation behind: the
  \<open>.then\<close> callback on \<open>cloned.json()\<close> or on \<open>cloned.text()\<close>, run by the event loop
  later.
\<close>

datatype task = Json_then response | Text_then response

record window =
  bucket :: capture
  pending :: "task list"

text \<open>
  \<open>window.fetch\<close> after the hook. The argument is what the original \<open>_fetch\<close> settles
  to; a rejection passes through the \<open>await\<close> to the caller.
\<close>

definition fetch :: "js_error + response \<Rightarrow> window \<Rightarrow> (js_error + response) \<times> window" where
  "fetch settled w =
     (case settled of
        Inl e \<Rightarrow> (Inl e, w)
      | Inr res \<Rightarrow>
          (let ct = content_type_of res in
           if includes_str ct ''application/json''
           then (Inr res, w\<lparr>pending := pending w @ [Json_then res]\<rparr>)
           else (Inr res, w\<lparr>pending := pending w @ [Text_then res]\<rparr>)))"

text \<open>
  One continuation. \<open>cloned.json()\<close> decodes with the native decoder; the text branch
  calls \<open>JSON.parse\<close>, which by then is the hooked one. A rejected body read and a failed
  decode both end in the empty \<open>catch\<close>.
\<close>

definition run_task :: "(string \<Rightarrow> json option) \<Rightarrow> task \<Rightarrow> capture \<Rightarrow> capture" where
  "run_task native t b =
     (case t of
        Json_then res \<Rightarrow>
          (case res_text res of
             None \<Rightarrow> b
           | Some txt \<Rightarrow>
               (case native txt of
                  None \<Rightarrow> b
                | Some v \<Rightarrow> push_json \<lparr>src = ''fetch'', url = res_url res, body = v\<rparr> b))
      | Text_then res \<Rightarrow>
          (case res_text res of
             None \<Rightarrow> b
           | Some txt \<Rightarrow>
               if txt \<noteq> [] \<and> includes_str txt ''{'' \<and> includes_str txt ''}''
               then (case JSON_parse native txt b of
                       (Inl e, b') \<Rightarrow> b'
                     | (Inr guess, b') \<Rightarrow>
                         push_json \<lparr>src = ''fetch-text'', url = res_url res, body = guess\<rparr> b')
               else b))"

text \<open>
  The event loop runs a continuation when the body it waits for has settled; which of the
  waiting continuations that is, the script does not fix. \<open>settle native i\<close> runs the one
  at position \<open>i\<close> of the waiting list and takes it off the list.
\<close>

definition settle :: "(string \<Rightarrow> json option) \<Rightarrow> nat \<Rightarrow> window \<Rightarrow> window" where
  "settle native i w =
     (if i < length (pending w)
      then w\<lparr>bucket := run_task native (pending w ! i) (bucket w),
             pending := take i (pending w) @ drop (Suc i) (pending w)\<rparr>
      else w)"

text \<open>
  From the spec's words for the text heuristic, "contains a balanced brace pair": an
  opening brace with a closing brace somewhere after it.
\<close>

definition balanced_brace_pair :: "string \<Rightarrow> bool" where
  "balanced_brace_pair txt =
     (CHR ''}'' \<in> set (dropWhile (\<lambda>c. c \<noteq> CHR ''{'') txt))"

text \<open>
  The native decoder on the texts of the examples below: the four it decodes, as a browser
  decodes them, and the malformed \<open>{a:1\<close> and \<open><html>\<close>, which a browser rejects as
  well. The examples use no other text. \<open>json.loads\<close> agrees with it on all six.
\<close>

definition example_parse :: "string \<Rightarrow> json option" where
  \<open>example_parse s =
     (if s = ''{"a":1}'' then Some (JObj [(''a'', JNum 1)])
      else if s = ''"}{"'' then Some (JStr ''}{'')
      else if s = ''[]'' then Some (JArr [])
      else if s = ''null'' then Some JNull
      else None)\<close>


section \<open>The collector\<close>

subsection \<open>The network observer\<close>

text \<open>
  \<open>on_response\<close>, the listener on the page's responses. \<open>loads\<close> is \<open>json.loads\<close>;
  \<open>res.json()\<close> reads the text and decodes it with the same decoder. The outer
  \<open>except Exception: pass\<close> is every branch that returns the log as it was. An undecoded
  text is kept as a string value.
\<close>

definition on_response ::
  "(string \<Rightarrow> json option) \<Rightarrow> response \<Rightarrow> capture_event list \<Rightarrow> capture_event list" where
  "on_response loads res log =
     (let u = res_url res; ct = content_type_of res in
      if includes_str ct ''application/json''
      then (case res_text res of
              None \<Rightarrow> log
            | Some text \<Rightarrow>
                (case loads text of
                   None \<Rightarrow> log
                 | Some b \<Rightarrow> log @ [\<lparr>src = ''network'', url = u, body = b\<rparr>]))
      else if endswith (to_lower u) ''.json'' \<or> includes_str (to_lower u) ''.json?''
      then (case res_text res of
              None \<Rightarrow> log
            | Some text \<Rightarrow>
                (let b = (case loads text of None \<Rightarrow> JStr text | Some v \<Rightarrow> v)
                 in log @ [\<lparr>src = ''network-text'', url = u, body = b\<rparr>]))
      else log)"

text \<open>\<open>_on_request\<close>: one entry of the request log per request, stamped with \<open>now_iso()\<close>.\<close>

record request =
  req_method :: string
  req_url :: string
  req_resource_type :: string

record req_entry =
  entry_time :: string
  entry_method :: string
  entry_url :: string
  entry_type :: string

definition on_request :: "string \<times> request \<Rightarrow> req_entry list \<Rightarrow> req_entry list" where
  "on_request tr req_log =
     req_log @ [\<lparr>entry_time = fst tr, entry_method = req_method (snd tr),
                 entry_url = req_url (snd tr), entry_type = req_resource_type (snd tr)\<rparr>]"

subsection \<open>Artifacts, actions and the session state\<close>

text \<open>
  The files of \<open>captures/\<close>: \<open>Xhr i\<close> is \<open>xhr-{i:02d}.json\<close>, \<open>Chart i\<close> is
  \<open>chart-{i:02d}.json\<close>; different numbers give different names.
\<close>

datatype artifact_name =
    Xhr nat
  | Chart nat
  | Canvas_text
  | Storage_local
  | Storage_session
  | Page_html
  | Screenshot_png
  | Trace_zip
  | Summary_json

record counts =
  count_req :: nat
  count_json :: nat
  count_chartConfigs :: nat
  count_canvasText :: nat
  count_localStorageKeys :: nat
  count_sessionStorageKeys :: nat

record summary =
  summary_url :: string
  summary_timestamp :: string
  summary_duration_sec :: int
  summary_counts :: counts

datatype artifact =
    Payload capture_event
  | Chart_config json
  | Canvas_list "json list"
  | Storage "(string \<times> string) list"
  | Markup string
  | Image
  | Trace
  | Summary_of summary

text \<open>
  Every call \<open>main\<close> makes on the browser, the clock, the disk and the standard output,
  in order.
\<close>

datatype action =
    Playwright_start
  | Launch_browser
  | Launch_persistent_context
  | Add_init_script
  | Tracing_start
  | New_page
  | Goto
  | Print_loaded
  | Sleep nat
  | Eval_scroll
  | Wait_for_timeout nat
  | Eval_resize
  | Read_charts
  | Read_json
  | Read_canvas_text
  | Read_local_storage
  | Read_session_storage
  | Write_text artifact_name
  | Page_content
  | Take_screenshot
  | Tracing_stop
  | Print_complete
  | Print_summary
  | Ctx_close
  | Browser_close
  | Playwright_stop

datatype error =
    Navigation_failed
  | Write_failed artifact_name
  | Page_content_failed
  | Screenshot_failed
  | Tracing_stop_failed
  | Ctx_close_failed
  | Browser_close_failed

text \<open>
  What one session meets outside \<open>main\<close>: which calls raise and what the reads return.
  \<open>pulse_calls i\<close> is how many of the three page calls of pulse \<open>i\<close> return before one
  raises (3 or more: none raises). \<open>charts_read i\<close> and \<open>json_read i\<close> are what the two
  \<open>page.evaluate\<close> calls of polling round \<open>i\<close> give, \<open>None\<close> when the call raises. The
  storage reads give the dictionary as its items, one per key. \<open>elapsed\<close> is
  \<open>round(time.time() - t0, 2)\<close> in hundredths of a second.
\<close>

record env =
  target :: string
  goto_ok :: bool
  requests :: "(string \<times> request) list"
  responses :: "response list"
  loads :: "string \<Rightarrow> json option"
  pulse_calls :: "nat \<Rightarrow> nat"
  charts_read :: "nat \<Rightarrow> json list option"
  json_read :: "nat \<Rightarrow> capture_event list option"
  canvas_read :: "json list option"
  local_read :: "(string \<times> string) list option"
  session_read :: "(string \<times> string) list option"
  write_ok :: "artifact_name \<Rightarrow> bool"
  page_content :: "string option"
  screenshot_ok :: bool
  tracing_stop_ok :: bool
  ctx_close_ok :: bool
  browser_close_ok :: bool
  utcnow :: string
  elapsed :: int

text \<open>The files written so far by this session and the calls made so far.\<close>

record sess =
  files :: "(artifact_name \<times> artifact) list"
  actions :: "action list"

type_synonym 'a prog = "sess \<Rightarrow> (error + 'a) \<times> sess"

definition ret :: "'a \<Rightarrow> 'a prog" where
  "ret x s = (Inr x, s)"

text \<open>One statement after another: an exception skips the rest.\<close>

definition seq :: "'a prog \<Rightarrow> ('a \<Rightarrow> 'b prog) \<Rightarrow> 'b prog" where
  "seq m f s = (case m s of (Inl e, s') \<Rightarrow> (Inl e, s') | (Inr x, s') \<Rightarrow> f x s')"

text \<open>\<open>try: m  except Exception: pass\<close>.\<close>

definition try_pass :: "unit prog \<Rightarrow> unit prog" where
  "try_pass m s = (case m s of (Inl e, s') \<Rightarrow> (Inr (), s') | (Inr x, s') \<Rightarrow> (Inr (), s'))"

definition act :: "action list \<Rightarrow> sess \<Rightarrow> sess" where
  "act as s = s\<lparr>actions := actions s @ as\<rparr>"

text \<open>Calls that return: the launches and the \<open>print\<close> calls.\<close>

definition does :: "action list \<Rightarrow> unit prog" where
  "does as s = (Inr (), act as s)"

text \<open>A call that raises \<open>e\<close> unless \<open>ok\<close>.\<close>

definition call :: "action \<Rightarrow> bool \<Rightarrow> error \<Rightarrow> unit prog" where
  "call a ok e s = (if ok then (Inr (), act [a] s) else (Inl e, act [a] s))"

text \<open>\<open>(OUT / name).write_text(...)\<close>: the file is there only when the write returns.\<close>

definition write_text :: "env \<Rightarrow> artifact_name \<Rightarrow> artifact \<Rightarrow> unit prog" where
  "write_text env name content s =
     (if write_ok env name
      then (Inr (), act [Write_text name] (s\<lparr>files := files s @ [(name, content)]\<rparr>))
      else (Inl (Write_failed name), act [Write_text name] s))"

subsection \<open>The phases of \<open>main\<close>\<close>

text \<open>
  The eight pulses: \<open>pulses env n i\<close> runs pulses \<open>i, ..., i + n - 1\<close>. The sleep is
  outside the \<open>try\<close>; of the three page calls, those up to the first that raises are made.
\<close>

fun pulses :: "env \<Rightarrow> nat \<Rightarrow> nat \<Rightarrow> unit prog" where
  "pulses env 0 i s = (Inr (), s)"
| "pulses env (Suc n) i s =
     pulses env n (Suc i)
       (act (Sleep 1250 # take (Suc (pulse_calls env i))
                            [Eval_scroll, Wait_for_timeout 250, Eval_resize]) s)"

text \<open>
  The polling loop with \<open>n\<close> rounds left, at round \<open>i\<close>, \<open>charts\<close> and \<open>injected_json\<close>
  as the rounds before left them. The \<open>try\<close> spans both reads and the test: a read that
  raises skips the test, and an assignment made before it stays.
\<close>

fun poll ::
  "env \<Rightarrow> nat \<Rightarrow> nat \<Rightarrow> json list \<Rightarrow> capture_event list \<Rightarrow>
     (json list \<times> capture_event list) prog" where
  "poll env 0 i charts injected_json s = (Inr (charts, injected_json), s)"
| "poll env (Suc n) i charts injected_json s =
     (case charts_read env i of
        None \<Rightarrow> poll env n (Suc i) charts injected_json (act [Read_charts, Sleep 1000] s)
      | Some c \<Rightarrow>
          (case json_read env i of
             None \<Rightarrow> poll env n (Suc i) c injected_json (act [Read_charts, Read_json, Sleep 1000] s)
           | Some j \<Rightarrow>
               if c \<noteq> [] \<or> j \<noteq> []
               then (Inr (c, j), act [Read_charts, Read_json] s)
               else poll env n (Suc i) c j (act [Read_charts, Read_json, Sleep 1000] s)))"

text \<open>The three snapshot reads, each in its own \<open>try\<close> with its own default.\<close>

definition read_canvas_text :: "env \<Rightarrow> json list prog" where
  "read_canvas_text env s =
     (Inr (case canvas_read env of None \<Rightarrow> [] | Some t \<Rightarrow> t), act [Read_canvas_text] s)"

definition read_local_storage :: "env \<Rightarrow> (string \<times> string) list prog" where
  "read_local_storage env s =
     (Inr (case local_read env of None \<Rightarrow> [] | Some d \<Rightarrow> d), act [Read_local_storage] s)"

definition read_session_storage :: "env \<Rightarrow> (string \<times> string) list prog" where
  "read_session_storage env s =
     (Inr (case session_read env of None \<Rightarrow> [] | Some d \<Rightarrow> d), act [Read_session_storage] s)"

text \<open>The two \<open>enumerate\<close> loops, from index \<open>i\<close> on.\<close>

fun write_payloads :: "env \<Rightarrow> nat \<Rightarrow> capture_event list \<Rightarrow> unit prog" where
  "write_payloads env i [] s = (Inr (), s)"
| "write_payloads env i (payload # rest) s =
     (case write_text env (Xhr i) (Payload payload) s of
        (Inl e, s') \<Rightarrow> (Inl e, s')
      | (Inr u, s') \<Rightarrow> write_payloads env (Suc i) rest s')"

fun write_charts :: "env \<Rightarrow> nat \<Rightarrow> json list \<Rightarrow> unit prog" where
  "write_charts env i [] s = (Inr (), s)"
| "write_charts env i (payload # rest) s =
     (case write_text env (Chart i) (Chart_config payload) s of
        (Inl e, s') \<Rightarrow> (Inl e, s')
      | (Inr u, s') \<Rightarrow> write_charts env (Suc i) rest s')"

definition write_canvas_text :: "env \<Rightarrow> json list \<Rightarrow> unit prog" where
  "write_canvas_text env canvas_text =
     (if canvas_text \<noteq> [] then write_text env Canvas_text (Canvas_list canvas_text)
      else ret ())"

text \<open>\<open>page.html\<close> and the screenshot, each inside \<open>try ... except Exception: pass\<close>.\<close>

definition get_page_content :: "env \<Rightarrow> string prog" where
  "get_page_content env s =
     (case page_content env of
        None \<Rightarrow> (Inl Page_content_failed, act [Page_content] s)
      | Some html \<Rightarrow> (Inr html, act [Page_content] s))"

definition save_page :: "env \<Rightarrow> unit prog" where
  "save_page env =
     try_pass (seq (get_page_content env) (\<lambda>html. write_text env Page_html (Markup html)))"

definition screenshot :: "env \<Rightarrow> unit prog" where
  "screenshot env s =
     (if screenshot_ok env
      then (Inr (), act [Take_screenshot] (s\<lparr>files := files s @ [(Screenshot_png, Image)]\<rparr>))
      else (Inl Screenshot_failed, act [Take_screenshot] s))"

definition save_screenshot :: "env \<Rightarrow> unit prog" where
  "save_screenshot env = try_pass (screenshot env)"

definition tracing_stop :: "env \<Rightarrow> unit prog" where
  "tracing_stop env s =
     (if tracing_stop_ok env
      then (Inr (), act [Tracing_stop] (s\<lparr>files := files s @ [(Trace_zip, Trace)]\<rparr>))
      else (Inl Tracing_stop_failed, act [Tracing_stop] s))"

definition make_summary ::
  "env \<Rightarrow> req_entry list \<Rightarrow> capture_event list \<Rightarrow> json list \<Rightarrow> json list \<Rightarrow>
     (string \<times> string) list \<Rightarrow> (string \<times> string) list \<Rightarrow> summary" where
  "make_summary env req_log merged_json charts canvas_text ls ss =
     \<lparr>summary_url = target env,
      summary_timestamp = utcnow env @ ''Z'',
      summary_duration_sec = elapsed env,
      summary_counts =
        \<lparr>count_req = length req_log,
         count_json = length merged_json,
         count_chartConfigs = length charts,
         count_canvasText = length canvas_text,
         count_localStorageKeys = length ls,
         count_sessionStorageKeys = length ss\<rparr>\<rparr>"

text \<open>
  The logs the two listeners have filled when \<open>main\<close> reads them: \<open>json_payloads\<close> at
  the merge, \<open>req_log\<close> at the summary.
\<close>

definition json_payloads :: "env \<Rightarrow> capture_event list" where
  "json_payloads env = foldl (\<lambda>log res. on_response (loads env) res log) [] (responses env)"

definition req_log :: "env \<Rightarrow> req_entry list" where
  "req_log env = foldl (\<lambda>log tr. on_request tr log) [] (requests env)"

text \<open>
  Everything from the writes on, given what the reads returned. Only the two
  \<open>try_pass\<close> steps are guarded. \<open>summary\<close> is a local variable: it is written,
  printed and dropped, and \<open>main\<close> returns nothing. \<open>ctx.close()\<close> and
  \<open>browser.close()\<close> are the last two statements.
\<close>

definition write_outputs ::
  "env \<Rightarrow> json list \<Rightarrow> capture_event list \<Rightarrow> json list \<Rightarrow>
     (string \<times> string) list \<Rightarrow> (string \<times> string) list \<Rightarrow> unit prog" where
  "write_outputs env charts injected_json canvas_text ls ss =
     (let merged_json = json_payloads env @ injected_json in
      seq (write_payloads env 0 merged_json) (\<lambda>_.
      seq (write_charts env 0 charts) (\<lambda>_.
      seq (write_canvas_text env canvas_text) (\<lambda>_.
      seq (write_text env Storage_local (Storage ls)) (\<lambda>_.
      seq (write_text env Storage_session (Storage ss)) (\<lambda>_.
      seq (save_page env) (\<lambda>_.
      seq (save_screenshot env) (\<lambda>_.
      seq (tracing_stop env) (\<lambda>_.
      (let summary = make_summary env (req_log env) merged_json charts canvas_text ls ss in
       seq (write_text env Summary_json (Summary_of summary)) (\<lambda>_.
       seq (does [Print_complete, Print_summary]) (\<lambda>_.
       seq (call Ctx_close (ctx_close_ok env) Ctx_close_failed) (\<lambda>_.
       call Browser_close (browser_close_ok env) Browser_close_failed)))))))))))))"

text \<open>
  The body of the \<open>with sync_playwright() as p:\<close> block. The two launches, the init
  script, the start of the trace and the new page are taken to return: when one of them
  raises, the run ends before any statement the results below are about. \<open>page.goto\<close>
  raises when the page has not reached \<open>networkidle\<close> after 120000 ms (or on any other
  navigation error); nothing catches it.
\<close>

definition session :: "env \<Rightarrow> unit prog" where
  "session env =
     seq (does [Launch_browser, Launch_persistent_context, Add_init_script,
                Tracing_start, New_page]) (\<lambda>_.
     seq (call Goto (goto_ok env) Navigation_failed) (\<lambda>_.
     seq (does [Print_loaded]) (\<lambda>_.
     seq (pulses env 8 0) (\<lambda>_.
     seq (poll env 75 0 [] []) (\<lambda>(charts, injected_json).
     seq (read_canvas_text env) (\<lambda>canvas_text.
     seq (read_local_storage env) (\<lambda>ls.
     seq (read_session_storage env) (\<lambda>ss.
     write_outputs env charts injected_json canvas_text ls ss))))))))"

text \<open>
  \<open>main\<close>: the block runs between the start and the stop of the Playwright driver, and
  the stop is made on every way out of the block. The session starts with no file written
  and no call made.
\<close>

definition main :: "env \<Rightarrow> (error + unit) \<times> sess" where
  "main env =
     (case session env (act [Playwright_start] \<lparr>files = [], actions = []\<rparr>) of
        (r, s) \<Rightarrow> (r, act [Playwright_stop] s))"


section \<open>Names used in the statements\<close>

text \<open>From the spec's data model: the source tags it lists for a capture event.\<close>

definition source_tags :: "string list" where
  "source_tags =
     [''fetch'', ''fetch-text'', ''xhr'', ''xhr-text'', ''inline'', ''network'', ''network-text'']"

text \<open>A page that has captured nothing and has no continuation waiting.\<close>

definition empty_window :: window where
  "empty_window =
     \<lparr>bucket = \<lparr>cap_json = [], cap_charts = [], cap_canvasText = []\<rparr>, pending = []\<rparr>"

text \<open>The response of \<open>/api/data\<close> with a given content type and body text.\<close>

definition served :: "string \<Rightarrow> string \<Rightarrow> response" where
  "served ct tx = \<lparr>res_url = ''/api/data'', res_content_type = Some ct, res_text = Some tx\<rparr>"

text \<open>A response whose URL names a JSON resource through \<open>.json?\<close>, in upper case.\<close>

definition report_json :: "string option \<Rightarrow> string \<Rightarrow> response" where
  "report_json ct tx =
     \<lparr>res_url = ''https://h/Report.JSON?id=7'', res_content_type = ct, res_text = Some tx\<rparr>"

text \<open>
  What a program does when it starts from a session that has written nothing and called
  nothing: its result, the files it writes and the calls it makes. Every program of
  \<open>main\<close> only appends to the two lists, and what it appends does not depend on what is
  already there (\<open>framed\<close>); so these three say what it does from any state.
\<close>

definition fresh :: sess where
  "fresh = \<lparr>files = [], actions = []\<rparr>"

definition outcome :: "'a prog \<Rightarrow> error + 'a" where
  "outcome m = fst (m fresh)"

definition written :: "'a prog \<Rightarrow> (artifact_name \<times> artifact) list" where
  "written m = files (snd (m fresh))"

definition emitted :: "'a prog \<Rightarrow> action list" where
  "emitted m = actions (snd (m fresh))"

definition framed :: "'a prog \<Rightarrow> bool" where
  "framed m =
     (\<forall>s. m s = (outcome m, \<lparr>files = files s @ written m, actions = actions s @ emitted m\<rparr>))"

text \<open>The numbered files the two \<open>enumerate\<close> loops write when no write fails.\<close>

definition payload_files :: "nat \<Rightarrow> capture_event list \<Rightarrow> (artifact_name \<times> artifact) list" where
  "payload_files i ps = map (\<lambda>(k, p). (Xhr k, Payload p)) (enumerate i ps)"

definition chart_files :: "nat \<Rightarrow> json list \<Rightarrow> (artifact_name \<times> artifact) list" where
  "chart_files i cs = map (\<lambda>(k, c). (Chart k, Chart_config c)) (enumerate i cs)"

text \<open>
  The values \<open>main\<close> holds after its reads: \<open>canvas_text\<close>, \<open>ls\<close>, \<open>ss\<close>, the pair
  \<open>(charts, injected_json)\<close> the polling loop ends with, \<open>merged_json\<close> and the local
  variable \<open>summary\<close>.
\<close>

definition canvas_text_of :: "env \<Rightarrow> json list" where
  "canvas_text_of env = (case canvas_read env of None \<Rightarrow> [] | Some t \<Rightarrow> t)"

definition local_storage_of :: "env \<Rightarrow> (string \<times> string) list" where
  "local_storage_of env = (case local_read env of None \<Rightarrow> [] | Some t \<Rightarrow> t)"

definition session_storage_of :: "env \<Rightarrow> (string \<times> string) list" where
  "session_storage_of env = (case session_read env of None \<Rightarrow> [] | Some t \<Rightarrow> t)"

definition polled :: "env \<Rightarrow> json list \<times> capture_event list" where
  "polled env = (case outcome (poll env 75 0 [] []) of Inr v \<Rightarrow> v | Inl e \<Rightarrow> ([], []))"

definition merged_json :: "env \<Rightarrow> capture_event list" where
  "merged_json env = json_payloads env @ snd (polled env)"

definition summary_of :: "env \<Rightarrow> summary" where
  "summary_of env =
     make_summary env (req_log env) (merged_json env) (fst (polled env)) (canvas_text_of env)
       (local_storage_of env) (session_storage_of env)"

text \<open>\<open>write_outputs\<close> on those values: the part of \<open>main\<close> after the reads.\<close>

definition outputs :: "env \<Rightarrow> unit prog" where
  "outputs env =
     write_outputs env (fst (polled env)) (snd (polled env)) (canvas_text_of env)
       (local_storage_of env) (session_storage_of env)"

text \<open>
  The files of a run in which nothing raises outside the two guarded steps, in the order
  they are written. The page markup is there when \<open>page.content()\<close> and its write both
  return, the screenshot when \<open>page.screenshot\<close> returns.
\<close>

definition expected_files :: "env \<Rightarrow> (artifact_name \<times> artifact) list" where
  "expected_files env =
     payload_files 0 (merged_json env) @ chart_files 0 (fst (polled env))
     @ (if canvas_text_of env \<noteq> [] then [(Canvas_text, Canvas_list (canvas_text_of env))] else [])
     @ [(Storage_local, Storage (local_storage_of env)),
        (Storage_session, Storage (session_storage_of env))]
     @ (case page_content env of
          None \<Rightarrow> []
        | Some h \<Rightarrow> if write_ok env Page_html then [(Page_html, Markup h)] else [])
     @ (if screenshot_ok env then [(Screenshot_png, Image)] else [])
     @ [(Trace_zip, Trace), (Summary_json, Summary_of (summary_of env))]"

fun is_xhr :: "artifact_name \<Rightarrow> bool" where
  "is_xhr (Xhr k) = True"
| "is_xhr n = False"

fun is_chart :: "artifact_name \<Rightarrow> bool" where
  "is_chart (Chart k) = True"
| "is_chart n = False"

text \<open>
  The files of \<open>expected_files\<close> that precede the trace: what has been written when
  \<open>tracing.stop\<close> is called.
\<close>

definition files_before_trace :: "env \<Rightarrow> (artifact_name \<times> artifact) list" where
  "files_before_trace env =
     payload_files 0 (merged_json env) @ chart_files 0 (fst (polled env))
     @ (if canvas_text_of env \<noteq> [] then [(Canvas_text, Canvas_list (canvas_text_of env))] else [])
     @ [(Storage_local, Storage (local_storage_of env)),
        (Storage_session, Storage (session_storage_of env))]
     @ (case page_content env of
          None \<Rightarrow> []
        | Some h \<Rightarrow> if write_ok env Page_html then [(Page_html, Markup h)] else [])
     @ (if screenshot_ok env then [(Screenshot_png, Image)] else [])"

text \<open>
  The first statement of \<open>main\<close> that raises, in program order, read off the session:
  the navigation, the first numbered payload write that fails, the first numbered chart
  write that fails, the canvas-text write (made only for a non-empty list), the two
  storage writes, the trace stop, the summary write, the two closes. \<open>page.content()\<close>,
  the write of \<open>page.html\<close> and the screenshot are not in the list: they are inside
  \<open>try ... except Exception: pass\<close>. \<open>None\<close>: no statement raises.
\<close>

definition first_failure :: "env \<Rightarrow> error option" where
  "first_failure env =
     (if \<not> goto_ok env then Some Navigation_failed
      else case find (\<lambda>k. \<not> write_ok env (Xhr k)) [0..<length (merged_json env)] of
        Some k \<Rightarrow> Some (Write_failed (Xhr k))
      | None \<Rightarrow>
     (case find (\<lambda>k. \<not> write_ok env (Chart k)) [0..<length (fst (polled env))] of
        Some k \<Rightarrow> Some (Write_failed (Chart k))
      | None \<Rightarrow>
      if canvas_text_of env \<noteq> [] \<and> \<not> write_ok env Canvas_text
      then Some (Write_failed Canvas_text)
      else if \<not> write_ok env Storage_local then Some (Write_failed Storage_local)
      else if \<not> write_ok env Storage_session then Some (Write_failed Storage_session)
      else if \<not> tracing_stop_ok env then Some Tracing_stop_failed
      else if \<not> write_ok env Summary_json then Some (Write_failed Summary_json)
      else if \<not> ctx_close_ok env then Some Ctx_close_failed
      else if \<not> browser_close_ok env then Some Browser_close_failed
      else None))"

text \<open>How \<open>main\<close> ends when that statement is the first to raise.\<close>

definition ends_with :: "error option \<Rightarrow> error + unit" where
  "ends_with f = (case f of None \<Rightarrow> Inr () | Some e \<Rightarrow> Inl e)"

text \<open>
  The files written before that statement, in the order of the writes: all of
  \<open>expected_files\<close> when nothing raises or a close does, none when the navigation does,
  and otherwise the part of \<open>expected_files\<close> that precedes the failing write.
\<close>

fun written_until :: "env \<Rightarrow> error option \<Rightarrow> (artifact_name \<times> artifact) list" where
  "written_until env None = expected_files env"
| "written_until env (Some Browser_close_failed) = expected_files env"
| "written_until env (Some Ctx_close_failed) = expected_files env"
| "written_until env (Some (Write_failed (Xhr k))) = payload_files 0 (take k (merged_json env))"
| "written_until env (Some (Write_failed (Chart k))) =
     payload_files 0 (merged_json env) @ chart_files 0 (take k (fst (polled env)))"
| "written_until env (Some (Write_failed Canvas_text)) =
     payload_files 0 (merged_json env) @ chart_files 0 (fst (polled env))"
| "written_until env (Some (Write_failed Storage_local)) =
     payload_files 0 (merged_json env) @ chart_files 0 (fst (polled env))
     @ (if canvas_text_of env \<noteq> [] then [(Canvas_text, Canvas_list (canvas_text_of env))] else [])"
| "written_until env (Some (Write_failed Storage_session)) =
     payload_files 0 (merged_json env) @ chart_files 0 (fst (polled env))
     @ (if canvas_text_of env \<noteq> [] then [(Canvas_text, Canvas_list (canvas_text_of env))] else [])
     @ [(Storage_local, Storage (local_storage_of env))]"
| "written_until env (Some Tracing_stop_failed) = files_before_trace env"
| "written_until env (Some (Write_failed Summary_json)) =
     files_before_trace env @ [(Trace_zip, Trace)]"
| "written_until env (Some e) = []"

text \<open>
  The ways of ending in which the summary statement has been passed: no statement raises,
  or one of the two closes does.
\<close>

fun summary_reached :: "error option \<Rightarrow> bool" where
  "summary_reached None = True"
| "summary_reached (Some Ctx_close_failed) = True"
| "summary_reached (Some Browser_close_failed) = True"
| "summary_reached (Some e) = False"

text \<open>
  The three teardown calls of \<open>main\<close>, the teardown calls among a list of calls, and the
  teardown calls made when a given statement is the first to raise.
\<close>

fun is_teardown :: "action \<Rightarrow> bool" where
  "is_teardown Tracing_stop = True"
| "is_teardown Ctx_close = True"
| "is_teardown Browser_close = True"
| "is_teardown a = False"

definition teardown_calls :: "action list \<Rightarrow> action list" where
  "teardown_calls as = filter is_teardown as"

fun teardown_before :: "error option \<Rightarrow> action list" where
  "teardown_before None = [Tracing_stop, Ctx_close, Browser_close]"
| "teardown_before (Some Browser_close_failed) = [Tracing_stop, Ctx_close, Browser_close]"
| "teardown_before (Some Ctx_close_failed) = [Tracing_stop, Ctx_close]"
| "teardown_before (Some (Write_failed Summary_json)) = [Tracing_stop]"
| "teardown_before (Some Tracing_stop_failed) = [Tracing_stop]"
| "teardown_before (Some e) = []"

text \<open>
  Polling round \<open>i\<close> ends the loop: both reads return and one of the two lists is not
  empty.
\<close>

definition signal :: "env \<Rightarrow> nat \<Rightarrow> bool" where
  "signal env i =
     (case charts_read env i of
        None \<Rightarrow> False
      | Some c \<Rightarrow> (case json_read env i of None \<Rightarrow> False | Some j \<Rightarrow> c \<noteq> [] \<or> j \<noteq> []))"

text \<open>
  Example sessions. \<open>quiet_env\<close>: a page on which nothing is ever observed and every call
  returns; the polling loop runs out. \<open>busy_env\<close>: the page fetches \<open>/api/data\<close>, decodes
  an inline string, builds one chart, draws one text and stores one key; the network
  observer sees the same fetch. The others differ from these in the one call that fails.
\<close>

definition quiet_env :: env where
  "quiet_env =
     \<lparr>target = ''https://report.example/#/Report'', goto_ok = True, requests = [],
      responses = [], loads = example_parse, pulse_calls = (\<lambda>i. 3),
      charts_read = (\<lambda>i. Some []), json_read = (\<lambda>i. Some []), canvas_read = Some [],
      local_read = Some [], session_read = Some [], write_ok = (\<lambda>n. True),
      page_content = Some ''<html></html>'', screenshot_ok = True, tracing_stop_ok = True,
      ctx_close_ok = True, browser_close_ok = True, utcnow = ''2025-01-01T00:00:00'',
      elapsed = 8710\<rparr>"

definition from_network :: capture_event where
  "from_network = \<lparr>src = ''network'', url = ''/api/data'', body = JObj [(''a'', JNum 1)]\<rparr>"

definition from_fetch :: capture_event where
  "from_fetch = \<lparr>src = ''fetch'', url = ''/api/data'', body = JObj [(''a'', JNum 1)]\<rparr>"

definition from_inline :: capture_event where
  "from_inline = \<lparr>src = ''JSON.parse'', url = ''inline'', body = JObj [(''b'', JNum 2)]\<rparr>"

definition busy_env :: env where
  \<open>busy_env =
     quiet_env
       \<lparr>requests := [(''2025-01-01T00:00:00+00:00'',
                       \<lparr>req_method = ''GET'', req_url = ''/api/data'',
                        req_resource_type = ''fetch''\<rparr>)],
        responses := [served ''application/json'' ''{"a":1}''],
        charts_read := (\<lambda>i. Some [JObj [(''lib'', JStr ''echarts'')]]),
        json_read := (\<lambda>i. Some [from_fetch, from_inline]),
        canvas_read := Some [JStr ''42''],
        local_read := Some [(''token'', ''x'')],
        elapsed := 1240\<rparr>\<close>

definition storage_write_fails :: env where
  "storage_write_fails = quiet_env\<lparr>write_ok := (\<lambda>n. n \<noteq> Storage_local)\<rparr>"

definition navigation_times_out :: env where
  "navigation_times_out = quiet_env\<lparr>goto_ok := False\<rparr>"

definition busy_navigation_times_out :: env where
  "busy_navigation_times_out = busy_env\<lparr>goto_ok := False\<rparr>"

definition json_read_raises :: env where
  "json_read_raises =
     quiet_env\<lparr>charts_read := (\<lambda>i. Some [JNull]), json_read := (\<lambda>i. None)\<rparr>"

definition screenshot_and_markup_fail :: env where
  "screenshot_and_markup_fail = busy_env\<lparr>screenshot_ok := False, page_content := None\<rparr>"

definition first_payload_write_fails :: env where
  "first_payload_write_fails = busy_env\<lparr>write_ok := (\<lambda>n. n \<noteq> Xhr 0)\<rparr>"

definition tracing_stop_fails :: env where
  "tracing_stop_fails = quiet_env\<lparr>tracing_stop_ok := False\<rparr>"

definition ctx_close_fails :: env where
  "ctx_close_fails = quiet_env\<lparr>ctx_close_ok := False\<rparr>"


section \<open>The page hooks\<close>

lemma includes_char: "includes_str s [c] = (c \<in> set s)"
  by (induction s) auto

text \<open>
  C1 (as amended). When the content type of a fetched response contains
  \<open>application/json\<close>, the hooked \<open>fetch\<close> hands the caller the very response it got,
  with the bucket untouched at that moment, and leaves one continuation waiting. Whenever
  that continuation runs, on whatever the bucket holds by then: if the body can be read
  and decodes, one entry tagged \<open>fetch\<close> with the response URL and the decoded body is
  appended at the end of the json channel and nothing else changes; if the body cannot
  be read or does not decode, the bucket stays as it was.
\<close>

theorem fetch_json_entry:
  assumes "includes_str (content_type_of res) ''application/json''"
  shows "fetch (Inr res) w = (Inr res, w\<lparr>pending := pending w @ [Json_then res]\<rparr>)
       \<and> run_task native (Json_then res) b
         = (case Option.bind (res_text res) native of
              None \<Rightarrow> b
            | Some v \<Rightarrow>
                b\<lparr>cap_json := cap_json b @ [\<lparr>src = ''fetch'', url = res_url res, body = v\<rparr>]\<rparr>)
       \<and> settle native (length (pending w)) (snd (fetch (Inr res) w))
         = w\<lparr>bucket := run_task native (Json_then res) (bucket w)\<rparr>"
  using assms
  by (simp add: fetch_def run_task_def push_json_def settle_def split: option.splits)

theorem fetch_json_entry_witness:
  \<open>includes_str (content_type_of (served ''application/json; charset=UTF-8'' ''{"a":1}''))
     ''application/json''
   \<and> fetch (Inr (served ''application/json; charset=UTF-8'' ''{"a":1}'')) empty_window
     = (Inr (served ''application/json; charset=UTF-8'' ''{"a":1}''),
        empty_window\<lparr>pending := [Json_then (served ''application/json; charset=UTF-8'' ''{"a":1}'')]\<rparr>)
   \<and> cap_json (bucket (settle example_parse 0
         (snd (fetch (Inr (served ''application/json; charset=UTF-8'' ''{"a":1}'')) empty_window))))
     = [\<lparr>src = ''fetch'', url = ''/api/data'', body = JObj [(''a'', JNum 1)]\<rparr>]\<close>
proof -
  let ?r = \<open>served ''application/json; charset=UTF-8'' ''{"a":1}''\<close>
  have h: "includes_str (content_type_of ?r) ''application/json''"
    by (simp add: served_def content_type_of_def to_lower_def lower_char_def)
  note t = fetch_json_entry [OF h, of empty_window example_parse "bucket empty_window"]
  have e: "pending empty_window = []" by (simp add: empty_window_def)
  have f: "fetch (Inr ?r) empty_window = (Inr ?r, empty_window\<lparr>pending := [Json_then ?r]\<rparr>)"
    using t [THEN conjunct1] by (simp only: e append_Nil)
  have d: "Option.bind (res_text ?r) example_parse = Some (JObj [(''a'', JNum 1)])"
    by (simp add: served_def example_parse_def)
  have r: "cap_json (run_task example_parse (Json_then ?r) (bucket empty_window))
      = [\<lparr>src = ''fetch'', url = ''/api/data'', body = JObj [(''a'', JNum 1)]\<rparr>]"
    unfolding t [THEN conjunct2, THEN conjunct1] d
    by (simp add: served_def empty_window_def)
  have "settle example_parse 0 (snd (fetch (Inr ?r) empty_window))
      = empty_window\<lparr>bucket := run_task example_parse (Json_then ?r) (bucket empty_window)\<rparr>"
    using t [THEN conjunct2, THEN conjunct2] by (simp only: e list.size)
  with r have "cap_json (bucket (settle example_parse 0 (snd (fetch (Inr ?r) empty_window))))
      = [\<lparr>src = ''fetch'', url = ''/api/data'', body = JObj [(''a'', JNum 1)]\<rparr>]"
    by simp
  with h f show ?thesis by blast
qed

text \<open>
  C1 as stated fails: a response declared \<open>application/json\<close> whose body does not decode
  leaves the json channel empty, since the rejection of \<open>cloned.json()\<close> is swallowed.
\<close>

theorem fetch_json_undecodable_counterexample:
  \<open>cap_json (bucket (settle example_parse 0
      (snd (fetch (Inr (served ''application/json'' ''{a:1'')) empty_window)))) = []\<close>
  by (simp add: served_def empty_window_def fetch_def content_type_of_def to_lower_def
        lower_char_def example_parse_def settle_def run_task_def)

text \<open>
  C5 (as amended). Every call of the hooked \<open>JSON.parse\<close> whose decode succeeds with an
  array or an object returns that value and appends one entry to the json channel; the
  entry's \<open>src\<close> is \<open>JSON.parse\<close> and its \<open>url\<close> is \<open>inline\<close>.
\<close>

theorem JSON_parse_entry:
  assumes "native s = Some out" and "out = JArr xs \<or> out = JObj kvs"
  shows "JSON_parse native s b
       = (Inr out,
          b\<lparr>cap_json := cap_json b @ [\<lparr>src = ''JSON.parse'', url = ''inline'', body = out\<rparr>]\<rparr>)"
  using assms by (auto simp add: JSON_parse_def push_json_def)

theorem JSON_parse_entry_witness:
  \<open>example_parse ''{"a":1}'' = Some (JObj [(''a'', JNum 1)])
   \<and> JSON_parse example_parse ''{"a":1}'' (bucket empty_window)
     = (Inr (JObj [(''a'', JNum 1)]),
        (bucket empty_window)\<lparr>cap_json := cap_json (bucket empty_window)
           @ [\<lparr>src = ''JSON.parse'', url = ''inline'', body = JObj [(''a'', JNum 1)]\<rparr>]\<rparr>)\<close>
proof -
  have h: \<open>example_parse ''{"a":1}'' = Some (JObj [(''a'', JNum 1)])\<close>
    by (simp add: example_parse_def)
  have k: "JObj [(''a'', JNum 1)] = JArr [] \<or> JObj [(''a'', JNum 1)] = JObj [(''a'', JNum 1)]"
    by simp
  from h k JSON_parse_entry [of example_parse \<open>''{"a":1}''\<close> "JObj [(''a'', JNum 1)]" "[]"
      "[(''a'', JNum 1)]" "bucket empty_window"]
  show ?thesis by blast
qed

text \<open>
  C5 as stated fails: the source tag of the entry is \<open>JSON.parse\<close>, which is neither
  \<open>inline\<close> nor any other tag of the data model.
\<close>

theorem JSON_parse_tag_counterexample:
  \<open>map src (cap_json (snd (JSON_parse example_parse ''{"a":1}'' (bucket empty_window))))
     = [''JSON.parse'']
   \<and> ''JSON.parse'' \<noteq> ''inline'' \<and> ''JSON.parse'' \<notin> set source_tags\<close>
  by (simp add: JSON_parse_def example_parse_def push_json_def empty_window_def source_tags_def)

text \<open>
  C6 (as amended). For a fetched response whose content type does not contain
  \<open>application/json\<close>, the caller gets the response itself, and the continuation decodes
  the text exactly when it contains an opening brace and a closing brace, in either order.
  A successful decode appends the entry tagged \<open>fetch-text\<close>, after the entry the hooked
  \<open>JSON.parse\<close> adds for an array or an object; a failed one, like a text without both
  braces, leaves the bucket as it was.
\<close>

theorem fetch_text_entry:
  assumes "\<not> includes_str (content_type_of res) ''application/json''"
    and "res_text res = Some tx"
  shows "fetch (Inr res) w = (Inr res, w\<lparr>pending := pending w @ [Text_then res]\<rparr>)
       \<and> run_task native (Text_then res) b
         = (case (if CHR ''{'' \<in> set tx \<and> CHR ''}'' \<in> set tx then native tx else None) of
              None \<Rightarrow> b
            | Some guess \<Rightarrow>
                b\<lparr>cap_json := cap_json b
                    @ (if truthy guess \<and> typeof guess = ''object''
                       then [\<lparr>src = ''JSON.parse'', url = ''inline'', body = guess\<rparr>] else [])
                    @ [\<lparr>src = ''fetch-text'', url = res_url res, body = guess\<rparr>]\<rparr>)"
  using assms
  by (auto simp add: fetch_def run_task_def JSON_parse_def push_json_def includes_char
           split: option.splits)

theorem fetch_text_entry_witness:
  \<open>\<not> includes_str (content_type_of (served ''text/html'' ''{"a":1}'')) ''application/json''
   \<and> res_text (served ''text/html'' ''{"a":1}'') = Some ''{"a":1}''
   \<and> fetch (Inr (served ''text/html'' ''{"a":1}'')) empty_window
       = (Inr (served ''text/html'' ''{"a":1}''),
          empty_window\<lparr>pending := pending empty_window
             @ [Text_then (served ''text/html'' ''{"a":1}'')]\<rparr>)
   \<and> run_task example_parse (Text_then (served ''text/html'' ''{"a":1}'')) (bucket empty_window)
       = (bucket empty_window)\<lparr>cap_json :=
            [\<lparr>src = ''JSON.parse'', url = ''inline'', body = JObj [(''a'', JNum 1)]\<rparr>,
             \<lparr>src = ''fetch-text'', url = ''/api/data'', body = JObj [(''a'', JNum 1)]\<rparr>]\<rparr>\<close>
proof -
  have h: \<open>\<not> includes_str (content_type_of (served ''text/html'' ''{"a":1}'')) ''application/json''\<close>
    by (simp add: served_def content_type_of_def to_lower_def lower_char_def)
  have k: \<open>res_text (served ''text/html'' ''{"a":1}'') = Some ''{"a":1}''\<close>
    by (simp add: served_def)
  from h k fetch_text_entry [OF h k, of empty_window example_parse "bucket empty_window"]
  show ?thesis
    by (simp add: example_parse_def served_def empty_window_def)
qed

text \<open>
  C6 as stated fails: the text \<open>"}{"\<close>, quotes included, holds no opening brace followed by
  a closing one, yet it is decoded and an entry tagged \<open>fetch-text\<close> is appended.
\<close>

theorem fetch_text_unbalanced_counterexample:
  \<open>\<not> balanced_brace_pair ''"}{"''
   \<and> cap_json (bucket (settle example_parse 0
         (snd (fetch (Inr (served ''text/html'' ''"}{"'')) empty_window))))
     = [\<lparr>src = ''fetch-text'', url = ''/api/data'', body = JStr ''}{''\<rparr>]\<close>
  by (simp add: balanced_brace_pair_def served_def empty_window_def fetch_def content_type_of_def
        to_lower_def lower_char_def settle_def run_task_def JSON_parse_def example_parse_def
        push_json_def)


section \<open>The network observer\<close>

text \<open>
  C10 (as amended). A response whose content type does not contain \<open>application/json\<close>,
  whose lower-cased URL ends with \<open>.json\<close> or contains \<open>.json?\<close>, whose text can be read
  and does not decode, is logged: one entry tagged \<open>network-text\<close> is appended, and its
  body is the text itself.
\<close>

theorem on_response_undecoded_text:
  assumes "\<not> includes_str (content_type_of res) ''application/json''"
    and "endswith (to_lower (res_url res)) ''.json''
         \<or> includes_str (to_lower (res_url res)) ''.json?''"
    and "res_text res = Some tx" and "decode tx = None"
  shows "on_response decode res log
       = log @ [\<lparr>src = ''network-text'', url = res_url res, body = JStr tx\<rparr>]"
  using assms by (auto simp add: on_response_def Let_def)

theorem on_response_undecoded_text_witness:
  \<open>\<not> includes_str (content_type_of (report_json (Some ''text/plain'') ''<html>''))
        ''application/json''
   \<and> includes_str (to_lower (res_url (report_json (Some ''text/plain'') ''<html>''))) ''.json?''
   \<and> example_parse ''<html>'' = None
   \<and> on_response example_parse (report_json (Some ''text/plain'') ''<html>'') []
     = [] @ [\<lparr>src = ''network-text'',
               url = res_url (report_json (Some ''text/plain'') ''<html>''),
               body = JStr ''<html>''\<rparr>]\<close>
proof -
  have h: \<open>\<not> includes_str (content_type_of (report_json (Some ''text/plain'') ''<html>''))
                ''application/json''\<close>
    by (simp add: report_json_def content_type_of_def to_lower_def lower_char_def)
  have k: \<open>includes_str (to_lower (res_url (report_json (Some ''text/plain'') ''<html>'')))
             ''.json?''\<close>
    by (simp add: report_json_def to_lower_def lower_char_def)
  have l: \<open>res_text (report_json (Some ''text/plain'') ''<html>'') = Some ''<html>''\<close>
    by (simp add: report_json_def)
  have m: \<open>example_parse ''<html>'' = None\<close>
    by (simp add: example_parse_def)
  from h k l m
    on_response_undecoded_text [of "report_json (Some ''text/plain'') ''<html>''" "''<html>''"
      example_parse "[]"]
  show ?thesis by blast
qed

text \<open>
  C10 as stated fails: when the same kind of URL comes with the content type
  \<open>application/json\<close>, the first branch is taken, \<open>res.json()\<close> raises on the undecodable
  body and the outer handler drops the response.
\<close>

theorem on_response_json_type_counterexample:
  \<open>endswith (to_lower (res_url
       (report_json (Some ''application/json'') ''<html>''\<lparr>res_url := ''https://h/data.json''\<rparr>)))
     ''.json''
   \<and> example_parse ''<html>'' = None
   \<and> on_response example_parse
       (report_json (Some ''application/json'') ''<html>''\<lparr>res_url := ''https://h/data.json''\<rparr>) []
     = []\<close>
  by (simp add: report_json_def on_response_def content_type_of_def to_lower_def lower_char_def
        example_parse_def endswith_def)


section \<open>The collector: what a run leaves behind\<close>

text \<open>
  Each statement of \<open>main\<close> is framed, and so is their sequence; the result, the files
  and the calls of a sequence follow from those of its parts.
\<close>

lemma framedI:
  assumes "\<And>s. m s = (r, \<lparr>files = files s @ fs, actions = actions s @ as\<rparr>)"
  shows "framed m \<and> outcome m = r \<and> written m = fs \<and> emitted m = as"
  using assms by (simp add: framed_def outcome_def written_def emitted_def fresh_def)

lemma framedD:
  "framed m \<Longrightarrow> m s = (outcome m, \<lparr>files = files s @ written m, actions = actions s @ emitted m\<rparr>)"
  by (simp add: framed_def)

lemma ret_framed: "framed (ret x) \<and> outcome (ret x) = Inr x \<and> written (ret x) = [] \<and> emitted (ret x) = []"
  by (rule framedI) (simp add: ret_def)

lemma call_framed:
  "framed (call a ok e) \<and> outcome (call a ok e) = (if ok then Inr () else Inl e)
   \<and> written (call a ok e) = [] \<and> emitted (call a ok e) = [a]"
  by (rule framedI) (simp add: call_def act_def)

lemma write_text_framed:
  "framed (write_text env n c)
   \<and> outcome (write_text env n c) = (if write_ok env n then Inr () else Inl (Write_failed n))
   \<and> written (write_text env n c) = (if write_ok env n then [(n, c)] else [])
   \<and> emitted (write_text env n c) = [Write_text n]"
  by (rule framedI) (simp add: write_text_def act_def)

lemma seq_framed:
  assumes "framed m" and "\<And>x. framed (f x)"
  shows "framed (seq m f)
   \<and> outcome (seq m f) = (case outcome m of Inl e \<Rightarrow> Inl e | Inr x \<Rightarrow> outcome (f x))
   \<and> written (seq m f) = written m @ (case outcome m of Inl e \<Rightarrow> [] | Inr x \<Rightarrow> written (f x))
   \<and> emitted (seq m f) = emitted m @ (case outcome m of Inl e \<Rightarrow> [] | Inr x \<Rightarrow> emitted (f x))"
proof (rule framedI)
  fix s
  show "seq m f s = (case outcome m of Inl e \<Rightarrow> Inl e | Inr x \<Rightarrow> outcome (f x),
      \<lparr>files = files s @ written m @ (case outcome m of Inl e \<Rightarrow> [] | Inr x \<Rightarrow> written (f x)),
       actions = actions s @ emitted m @ (case outcome m of Inl e \<Rightarrow> [] | Inr x \<Rightarrow> emitted (f x))\<rparr>)"
    by (cases "outcome m") (simp_all add: seq_def framedD [OF assms(1)] framedD [OF assms(2)])
qed

lemma try_pass_framed:
  assumes "framed m"
  shows "framed (try_pass m) \<and> outcome (try_pass m) = Inr ()
   \<and> written (try_pass m) = written m \<and> emitted (try_pass m) = emitted m"
proof (rule framedI)
  fix s
  show "try_pass m s = (Inr (), \<lparr>files = files s @ written m, actions = actions s @ emitted m\<rparr>)"
    by (cases "outcome m") (simp_all add: try_pass_def framedD [OF assms])
qed

lemma after_act_framed:
  assumes "framed m"
  shows "framed (\<lambda>s. m (act as s)) \<and> outcome (\<lambda>s. m (act as s)) = outcome m
   \<and> written (\<lambda>s. m (act as s)) = written m \<and> emitted (\<lambda>s. m (act as s)) = as @ emitted m"
  by (rule framedI) (simp add: framedD [OF assms] act_def)

lemma done_act_framed:
  "framed (\<lambda>s. (Inr v, act as s)) \<and> outcome (\<lambda>s. (Inr v, act as s)) = Inr v
   \<and> written (\<lambda>s. (Inr v, act as s)) = [] \<and> emitted (\<lambda>s. (Inr v, act as s)) = as"
  by (rule framedI) (simp add: act_def)

lemma does_framed:
  "framed (does as) \<and> outcome (does as) = Inr () \<and> written (does as) = []
   \<and> emitted (does as) = as"
  by (rule framedI) (simp add: does_def act_def)

text \<open>The two loops before the reads: they write nothing and never raise.\<close>

lemma pulses_Suc:
  "pulses env (Suc n) i
     = (\<lambda>s. pulses env n (Suc i)
          (act (Sleep 1250 # take (Suc (pulse_calls env i))
                  [Eval_scroll, Wait_for_timeout 250, Eval_resize]) s))"
  by (rule ext) simp

lemma pulses_framed:
  "framed (pulses env n i) \<and> outcome (pulses env n i) = Inr () \<and> written (pulses env n i) = []
   \<and> set (emitted (pulses env n i))
       \<subseteq> {Sleep 1250, Eval_scroll, Wait_for_timeout 250, Eval_resize}"
proof (induction n arbitrary: i)
  case 0
  have "pulses env 0 i = ret ()" by (rule ext) (simp add: ret_def)
  then show ?case by (simp add: ret_framed)
next
  case (Suc n)
  have "set (take k [Eval_scroll, Wait_for_timeout 250, Eval_resize])
          \<subseteq> {Sleep 1250, Eval_scroll, Wait_for_timeout 250, Eval_resize}" for k
    using set_take_subset [of k "[Eval_scroll, Wait_for_timeout 250, Eval_resize]"] by auto
  with Suc [of "Suc i"] show ?case
    unfolding pulses_Suc by (simp add: after_act_framed del: take_Suc_Cons)
qed

lemma poll_0: "poll env 0 i c j = ret (c, j)"
  by (rule ext) (simp add: ret_def)

lemma poll_Suc:
  "poll env (Suc n) i c j =
     (case charts_read env i of
        None \<Rightarrow> (\<lambda>s. poll env n (Suc i) c j (act [Read_charts, Sleep 1000] s))
      | Some c' \<Rightarrow>
          (case json_read env i of
             None \<Rightarrow> (\<lambda>s. poll env n (Suc i) c' j (act [Read_charts, Read_json, Sleep 1000] s))
           | Some j' \<Rightarrow>
               if c' \<noteq> [] \<or> j' \<noteq> []
               then (\<lambda>s. (Inr (c', j'), act [Read_charts, Read_json] s))
               else (\<lambda>s. poll env n (Suc i) c' j' (act [Read_charts, Read_json, Sleep 1000] s))))"
  by (rule ext) (simp split: option.splits)

lemma poll_framed:
  "framed (poll env n i c j) \<and> written (poll env n i c j) = []
   \<and> \<not> isl (outcome (poll env n i c j))
   \<and> set (emitted (poll env n i c j)) \<subseteq> {Read_charts, Read_json, Sleep 1000}"
proof (induction n arbitrary: i c j)
  case 0
  show ?case by (simp add: poll_0 ret_framed)
next
  case (Suc n)
  show ?case
    unfolding poll_Suc
    by (auto simp add: after_act_framed done_act_framed Suc split: option.splits)
qed

lemmas seq_framed1 = seq_framed [THEN conjunct1]

lemmas seq_outcome = seq_framed [THEN conjunct2, THEN conjunct1]

lemmas seq_written = seq_framed [THEN conjunct2, THEN conjunct2, THEN conjunct1]

lemmas seq_emitted = seq_framed [THEN conjunct2, THEN conjunct2, THEN conjunct2]

text \<open>
  The two numbered write loops: they make only \<open>write_text\<close> calls, stop at the first
  write that fails, and otherwise write one file per element, numbered from \<open>i\<close>.
\<close>

lemma write_payloads_Nil: "write_payloads env i [] = ret ()"
  by (rule ext) (simp add: ret_def)

lemma write_payloads_Cons:
  "write_payloads env i (p # ps)
     = seq (write_text env (Xhr i) (Payload p)) (\<lambda>_. write_payloads env (Suc i) ps)"
  by (rule ext) (simp add: seq_def split: prod.splits sum.splits)

lemma write_payloads_framed: "framed (write_payloads env i ps)"
  by (induction ps arbitrary: i)
     (simp_all add: write_payloads_Nil write_payloads_Cons ret_framed seq_framed1 write_text_framed)

lemma write_payloads_facts:
  "set (emitted (write_payloads env i ps)) \<subseteq> range (\<lambda>k. Write_text (Xhr k))
   \<and> fst ` set (written (write_payloads env i ps)) \<subseteq> range Xhr
   \<and> (outcome (write_payloads env i ps) = Inr () \<or>
      outcome (write_payloads env i ps) \<in> range (\<lambda>k. Inl (Write_failed (Xhr k))))
   \<and> (outcome (write_payloads env i ps) = Inr ()
        \<longrightarrow> written (write_payloads env i ps) = payload_files i ps)"
proof (induction ps arbitrary: i)
  case Nil
  show ?case by (simp add: write_payloads_Nil ret_framed payload_files_def)
next
  case (Cons p ps)
  from Cons [of "Suc i"] show ?case
    by (auto simp add: write_payloads_Cons seq_outcome seq_written seq_emitted write_text_framed
          write_payloads_framed payload_files_def)
qed

lemma write_charts_Nil: "write_charts env i [] = ret ()"
  by (rule ext) (simp add: ret_def)

lemma write_charts_Cons:
  "write_charts env i (p # ps)
     = seq (write_text env (Chart i) (Chart_config p)) (\<lambda>_. write_charts env (Suc i) ps)"
  by (rule ext) (simp add: seq_def split: prod.splits sum.splits)

lemma write_charts_framed: "framed (write_charts env i ps)"
  by (induction ps arbitrary: i)
     (simp_all add: write_charts_Nil write_charts_Cons ret_framed seq_framed1 write_text_framed)

lemma write_charts_facts:
  "set (emitted (write_charts env i ps)) \<subseteq> range (\<lambda>k. Write_text (Chart k))
   \<and> fst ` set (written (write_charts env i ps)) \<subseteq> range Chart
   \<and> (outcome (write_charts env i ps) = Inr () \<or>
      outcome (write_charts env i ps) \<in> range (\<lambda>k. Inl (Write_failed (Chart k))))
   \<and> (outcome (write_charts env i ps) = Inr ()
        \<longrightarrow> written (write_charts env i ps) = chart_files i ps)"
proof (induction ps arbitrary: i)
  case Nil
  show ?case by (simp add: write_charts_Nil ret_framed chart_files_def)
next
  case (Cons p ps)
  from Cons [of "Suc i"] show ?case
    by (auto simp add: write_charts_Cons seq_outcome seq_written seq_emitted write_text_framed
          write_charts_framed chart_files_def)
qed

text \<open>The single statements.\<close>

lemma read_canvas_text_framed:
  "framed (read_canvas_text env) \<and> outcome (read_canvas_text env) = Inr (canvas_text_of env)
   \<and> written (read_canvas_text env) = [] \<and> emitted (read_canvas_text env) = [Read_canvas_text]"
  by (rule framedI) (simp add: read_canvas_text_def act_def canvas_text_of_def)

lemma read_local_storage_framed:
  "framed (read_local_storage env) \<and> outcome (read_local_storage env) = Inr (local_storage_of env)
   \<and> written (read_local_storage env) = [] \<and> emitted (read_local_storage env) = [Read_local_storage]"
  by (rule framedI) (simp add: read_local_storage_def act_def local_storage_of_def)

lemma read_session_storage_framed:
  "framed (read_session_storage env) \<and> outcome (read_session_storage env) = Inr (session_storage_of env)
   \<and> written (read_session_storage env) = [] \<and> emitted (read_session_storage env) = [Read_session_storage]"
  by (rule framedI) (simp add: read_session_storage_def act_def session_storage_of_def)

lemma write_canvas_text_framed:
  "framed (write_canvas_text env ct)
   \<and> outcome (write_canvas_text env ct)
       = (if ct \<noteq> [] \<and> \<not> write_ok env Canvas_text then Inl (Write_failed Canvas_text) else Inr ())
   \<and> written (write_canvas_text env ct)
       = (if ct \<noteq> [] \<and> write_ok env Canvas_text then [(Canvas_text, Canvas_list ct)] else [])
   \<and> emitted (write_canvas_text env ct) = (if ct \<noteq> [] then [Write_text Canvas_text] else [])"
  by (simp add: write_canvas_text_def write_text_framed ret_framed)

lemma get_page_content_framed:
  "framed (get_page_content env)
   \<and> outcome (get_page_content env)
       = (case page_content env of None \<Rightarrow> Inl Page_content_failed | Some h \<Rightarrow> Inr h)
   \<and> written (get_page_content env) = [] \<and> emitted (get_page_content env) = [Page_content]"
  by (rule framedI) (simp add: get_page_content_def act_def split: option.splits)

lemma save_page_framed:
  "framed (save_page env) \<and> outcome (save_page env) = Inr ()
   \<and> written (save_page env)
       = (case page_content env of
            None \<Rightarrow> []
          | Some h \<Rightarrow> if write_ok env Page_html then [(Page_html, Markup h)] else [])
   \<and> emitted (save_page env)
       = (case page_content env of
            None \<Rightarrow> [Page_content]
          | Some h \<Rightarrow> [Page_content, Write_text Page_html])"
  by (simp add: save_page_def try_pass_framed seq_framed1 seq_written seq_emitted
        get_page_content_framed write_text_framed split: option.splits)

lemma screenshot_framed:
  "framed (screenshot env)
   \<and> outcome (screenshot env) = (if screenshot_ok env then Inr () else Inl Screenshot_failed)
   \<and> written (screenshot env) = (if screenshot_ok env then [(Screenshot_png, Image)] else [])
   \<and> emitted (screenshot env) = [Take_screenshot]"
  by (rule framedI) (simp add: screenshot_def act_def)

lemma save_screenshot_framed:
  "framed (save_screenshot env) \<and> outcome (save_screenshot env) = Inr ()
   \<and> written (save_screenshot env) = (if screenshot_ok env then [(Screenshot_png, Image)] else [])
   \<and> emitted (save_screenshot env) = [Take_screenshot]"
  by (simp add: save_screenshot_def try_pass_framed screenshot_framed)

lemma tracing_stop_framed:
  "framed (tracing_stop env)
   \<and> outcome (tracing_stop env) = (if tracing_stop_ok env then Inr () else Inl Tracing_stop_failed)
   \<and> written (tracing_stop env) = (if tracing_stop_ok env then [(Trace_zip, Trace)] else [])
   \<and> emitted (tracing_stop env) = [Tracing_stop]"
  by (rule framedI) (simp add: tracing_stop_def act_def)

lemma write_outputs_framed: "framed (write_outputs env ch ij ct ls ss)"
  by (simp add: write_outputs_def Let_def seq_framed1 does_framed call_framed write_text_framed
        write_payloads_framed write_charts_framed write_canvas_text_framed save_page_framed
        save_screenshot_framed tracing_stop_framed)

lemma case_prod_framed: "(\<And>a b. framed (f a b)) \<Longrightarrow> framed (case_prod f p)"
  by (cases p) simp

lemma session_framed: "framed (session env)"
  by (simp add: session_def seq_framed1 does_framed call_framed pulses_framed poll_framed
        read_canvas_text_framed read_local_storage_framed read_session_storage_framed
        write_outputs_framed case_prod_framed)

lemma poll_outcome: "outcome (poll env 75 0 [] []) = Inr (polled env)"
  using poll_framed [of env 75 0 "[]" "[]"]
  by (cases "outcome (poll env 75 0 [] [])") (simp_all add: polled_def)

lemma main_eq:
  "main env = (outcome (session env),
     \<lparr>files = written (session env),
      actions = Playwright_start # emitted (session env) @ [Playwright_stop]\<rparr>)"
  by (simp add: main_def framedD [OF session_framed] act_def)

lemma session_nf:
  "outcome (session env) = (if goto_ok env then outcome (outputs env) else Inl Navigation_failed)
   \<and> written (session env) = (if goto_ok env then written (outputs env) else [])
   \<and> emitted (session env)
       = [Launch_browser, Launch_persistent_context, Add_init_script, Tracing_start, New_page, Goto]
         @ (if goto_ok env
            then Print_loaded # emitted (pulses env 8 0) @ emitted (poll env 75 0 [] [])
                 @ [Read_canvas_text, Read_local_storage, Read_session_storage]
                 @ emitted (outputs env)
            else [])"
  by (simp add: session_def outputs_def seq_framed1 seq_outcome seq_written seq_emitted
        does_framed call_framed pulses_framed poll_framed poll_outcome
        read_canvas_text_framed read_local_storage_framed read_session_storage_framed
        write_outputs_framed case_prod_framed split_beta)

text \<open>No statement before \<open>tracing.stop\<close> makes a teardown call.\<close>

lemma teardown_calls_none: "\<forall>a\<in>set as. \<not> is_teardown a \<Longrightarrow> teardown_calls as = []"
  by (simp add: teardown_calls_def filter_empty_conv)

lemma teardown_calls_append: "teardown_calls (as @ bs) = teardown_calls as @ teardown_calls bs"
  by (simp add: teardown_calls_def)

lemma teardown_write_payloads: "teardown_calls (emitted (write_payloads env i ps)) = []"
proof (rule teardown_calls_none, rule ballI)
  fix a assume "a \<in> set (emitted (write_payloads env i ps))"
  with write_payloads_facts [of env i ps] have "a \<in> range (\<lambda>k. Write_text (Xhr k))"
    by blast
  then show "\<not> is_teardown a" by auto
qed

lemma teardown_write_charts: "teardown_calls (emitted (write_charts env i ps)) = []"
proof (rule teardown_calls_none, rule ballI)
  fix a assume "a \<in> set (emitted (write_charts env i ps))"
  with write_charts_facts [of env i ps] have "a \<in> range (\<lambda>k. Write_text (Chart k))"
    by blast
  then show "\<not> is_teardown a" by auto
qed

lemma teardown_pulses: "teardown_calls (emitted (pulses env n i)) = []"
proof (rule teardown_calls_none, rule ballI)
  fix a assume "a \<in> set (emitted (pulses env n i))"
  with pulses_framed [of env n i]
  have "a \<in> {Sleep 1250, Eval_scroll, Wait_for_timeout 250, Eval_resize}" by blast
  then show "\<not> is_teardown a" by auto
qed

lemma teardown_poll: "teardown_calls (emitted (poll env n i c j)) = []"
proof (rule teardown_calls_none, rule ballI)
  fix a assume "a \<in> set (emitted (poll env n i c j))"
  with poll_framed [of env n i c j]
  have "a \<in> {Read_charts, Read_json, Sleep 1000}" by blast
  then show "\<not> is_teardown a" by auto
qed

lemma write_payloads_find:
  assumes "n = i + length ps"
  shows "(case find (\<lambda>k. \<not> write_ok env (Xhr k)) [i..<n] of
      None \<Rightarrow> outcome (write_payloads env i ps) = Inr ()
             \<and> written (write_payloads env i ps) = payload_files i ps
    | Some k \<Rightarrow> i \<le> k \<and> \<not> write_ok env (Xhr k)
             \<and> outcome (write_payloads env i ps) = Inl (Write_failed (Xhr k))
             \<and> written (write_payloads env i ps) = payload_files i (take (k - i) ps))"
  using assms
proof (induction ps arbitrary: i)
  case Nil
  then show ?case by (simp add: write_payloads_Nil ret_framed payload_files_def)
next
  case (Cons p ps)
  from Cons.prems have n: "n = Suc i + length ps" and "i < n" by simp_all
  then have u: "[i..<n] = i # [Suc i..<n]" by (simp only: upt_conv_Cons)
  from Cons.IH [OF n] show ?case
    unfolding u
    by (auto simp add: write_payloads_Cons seq_outcome seq_written write_text_framed
          write_payloads_framed payload_files_def take_Cons' split: option.splits)
qed

lemma write_charts_find:
  assumes "n = i + length ps"
  shows "(case find (\<lambda>k. \<not> write_ok env (Chart k)) [i..<n] of
      None \<Rightarrow> outcome (write_charts env i ps) = Inr ()
             \<and> written (write_charts env i ps) = chart_files i ps
    | Some k \<Rightarrow> i \<le> k \<and> \<not> write_ok env (Chart k)
             \<and> outcome (write_charts env i ps) = Inl (Write_failed (Chart k))
             \<and> written (write_charts env i ps) = chart_files i (take (k - i) ps))"
  using assms
proof (induction ps arbitrary: i)
  case Nil
  then show ?case by (simp add: write_charts_Nil ret_framed chart_files_def)
next
  case (Cons p ps)
  from Cons.prems have n: "n = Suc i + length ps" and "i < n" by simp_all
  then have u: "[i..<n] = i # [Suc i..<n]" by (simp only: upt_conv_Cons)
  from Cons.IH [OF n] show ?case
    unfolding u
    by (auto simp add: write_charts_Cons seq_outcome seq_written write_text_framed
          write_charts_framed chart_files_def take_Cons' split: option.splits)
qed

lemmas outputs_simps =
  outputs_def write_outputs_def Let_def seq_framed1 seq_outcome seq_written seq_emitted
  ret_framed does_framed call_framed write_text_framed write_payloads_framed write_charts_framed
  write_canvas_text_framed save_page_framed save_screenshot_framed tracing_stop_framed

lemmas step_simps =
  seq_framed1 seq_outcome seq_written seq_emitted ret_framed does_framed call_framed write_text_framed
  write_payloads_framed write_charts_framed write_canvas_text_framed
  save_page_framed [THEN conjunct1] save_page_framed [THEN conjunct2, THEN conjunct1]
  save_screenshot_framed [THEN conjunct1] save_screenshot_framed [THEN conjunct2, THEN conjunct1]
  save_screenshot_framed [THEN conjunct2, THEN conjunct2, THEN conjunct2]
  tracing_stop_framed

text \<open>
  The ways the part of \<open>main\<close> after the reads can end: at the first numbered payload
  write that fails, at the first chart write that fails, at the canvas-text, the
  local-storage or the session-storage write, at \<open>tracing.stop\<close>, at the summary write, at
  one of the two closes, or at the last statement. Each case gives what has returned
  before, the result, the files written until then and the calls made until then.
\<close>

lemma outputs_cases:
  fixes env
  defines "merged \<equiv> json_payloads env @ snd (polled env)"
    and "chs \<equiv> fst (polled env)"
    and "ct \<equiv> canvas_text_of env"
    and "ls \<equiv> local_storage_of env"
    and "ss \<equiv> session_storage_of env"
  defines "P1 \<equiv> write_payloads env 0 merged"
    and "P2 \<equiv> write_charts env 0 chs"
    and "sm \<equiv> make_summary env (req_log env) merged chs ct ls ss"
    and "F1 \<equiv> find (\<lambda>k. \<not> write_ok env (Xhr k)) [0..<length merged]"
    and "F2 \<equiv> find (\<lambda>k. \<not> write_ok env (Chart k)) [0..<length chs]"
  defines "W5 \<equiv> payload_files 0 merged @ chart_files 0 chs
                 @ (if ct \<noteq> [] then [(Canvas_text, Canvas_list ct)] else [])
                 @ [(Storage_local, Storage ls), (Storage_session, Storage ss)]
                 @ written (save_page env) @ written (save_screenshot env)"
    and "E5 \<equiv> emitted P1 @ emitted P2
                 @ (if ct \<noteq> [] then [Write_text Canvas_text] else [])
                 @ [Write_text Storage_local, Write_text Storage_session]
                 @ emitted (save_page env) @ [Take_screenshot, Tracing_stop]"
  obtains
    (payloads) k where
      "F1 = Some k"
      "\<not> write_ok env (Xhr k)"
      "outcome (outputs env) = Inl (Write_failed (Xhr k))"
      "written (outputs env) = payload_files 0 (take k merged)"
      "emitted (outputs env) = emitted P1"
  | (charts) k where
      "F1 = None" "F2 = Some k"
      "\<not> write_ok env (Chart k)"
      "outcome (outputs env) = Inl (Write_failed (Chart k))"
      "written (outputs env) = payload_files 0 merged @ chart_files 0 (take k chs)"
      "emitted (outputs env) = emitted P1 @ emitted P2"
  | (canvas)
      "F1 = None" "F2 = None"
      "ct \<noteq> []" "\<not> write_ok env Canvas_text"
      "outcome (outputs env) = Inl (Write_failed Canvas_text)"
      "written (outputs env) = payload_files 0 merged @ chart_files 0 chs"
      "emitted (outputs env) = emitted P1 @ emitted P2 @ [Write_text Canvas_text]"
  | (local)
      "F1 = None" "F2 = None" "ct = [] \<or> write_ok env Canvas_text"
      "\<not> write_ok env Storage_local"
      "outcome (outputs env) = Inl (Write_failed Storage_local)"
      "written (outputs env) = payload_files 0 merged @ chart_files 0 chs
         @ (if ct \<noteq> [] then [(Canvas_text, Canvas_list ct)] else [])"
      "emitted (outputs env) = emitted P1 @ emitted P2
         @ (if ct \<noteq> [] then [Write_text Canvas_text] else []) @ [Write_text Storage_local]"
  | (session)
      "F1 = None" "F2 = None" "ct = [] \<or> write_ok env Canvas_text"
      "write_ok env Storage_local"
      "\<not> write_ok env Storage_session"
      "outcome (outputs env) = Inl (Write_failed Storage_session)"
      "written (outputs env) = payload_files 0 merged @ chart_files 0 chs
         @ (if ct \<noteq> [] then [(Canvas_text, Canvas_list ct)] else [])
         @ [(Storage_local, Storage ls)]"
      "emitted (outputs env) = emitted P1 @ emitted P2
         @ (if ct \<noteq> [] then [Write_text Canvas_text] else [])
         @ [Write_text Storage_local, Write_text Storage_session]"
  | (trace)
      "F1 = None" "F2 = None" "ct = [] \<or> write_ok env Canvas_text"
      "write_ok env Storage_local" "write_ok env Storage_session"
      "\<not> tracing_stop_ok env"
      "outcome (outputs env) = Inl Tracing_stop_failed"
      "written (outputs env) = W5"
      "emitted (outputs env) = E5"
  | (summary)
      "F1 = None" "F2 = None" "ct = [] \<or> write_ok env Canvas_text"
      "write_ok env Storage_local" "write_ok env Storage_session" "tracing_stop_ok env"
      "\<not> write_ok env Summary_json"
      "outcome (outputs env) = Inl (Write_failed Summary_json)"
      "written (outputs env) = W5 @ [(Trace_zip, Trace)]"
      "emitted (outputs env) = E5 @ [Write_text Summary_json]"
  | (ctx)
      "F1 = None" "F2 = None" "ct = [] \<or> write_ok env Canvas_text"
      "write_ok env Storage_local" "write_ok env Storage_session" "tracing_stop_ok env"
      "write_ok env Summary_json"
      "\<not> ctx_close_ok env"
      "outcome (outputs env) = Inl Ctx_close_failed"
      "written (outputs env) = W5 @ [(Trace_zip, Trace), (Summary_json, Summary_of sm)]"
      "emitted (outputs env)
         = E5 @ [Write_text Summary_json, Print_complete, Print_summary, Ctx_close]"
  | (browser)
      "F1 = None" "F2 = None" "ct = [] \<or> write_ok env Canvas_text"
      "write_ok env Storage_local" "write_ok env Storage_session" "tracing_stop_ok env"
      "write_ok env Summary_json" "ctx_close_ok env"
      "\<not> browser_close_ok env"
      "outcome (outputs env) = Inl Browser_close_failed"
      "written (outputs env) = W5 @ [(Trace_zip, Trace), (Summary_json, Summary_of sm)]"
      "emitted (outputs env)
         = E5 @ [Write_text Summary_json, Print_complete, Print_summary, Ctx_close,
                 Browser_close]"
  | (ok)
      "F1 = None" "F2 = None" "ct = [] \<or> write_ok env Canvas_text"
      "write_ok env Storage_local" "write_ok env Storage_session" "tracing_stop_ok env"
      "write_ok env Summary_json" "ctx_close_ok env" "browser_close_ok env"
      "outcome (outputs env) = Inr ()"
      "written (outputs env) = W5 @ [(Trace_zip, Trace), (Summary_json, Summary_of sm)]"
      "emitted (outputs env)
         = E5 @ [Write_text Summary_json, Print_complete, Print_summary, Ctx_close,
                 Browser_close]"
proof -
  note defs = outputs_def write_outputs_def Let_def merged_def chs_def ct_def ls_def ss_def
    P1_def P2_def sm_def
  show thesis
  proof (cases F1)
    case (Some k)
    with write_payloads_find [of "length merged" 0 merged env]
    have "\<not> write_ok env (Xhr k)" "outcome P1 = Inl (Write_failed (Xhr k))"
      "written P1 = payload_files 0 (take k merged)"
      by (simp_all add: F1_def P1_def)
    with Some show thesis
      by (intro payloads [of k]) (simp_all add: defs step_simps)
  next
    case f1: None
    with write_payloads_find [of "length merged" 0 merged env]
    have p1: "outcome P1 = Inr ()" and w1: "written P1 = payload_files 0 merged"
      by (simp_all add: F1_def P1_def)
    show thesis
    proof (cases F2)
      case (Some k)
      with write_charts_find [of "length chs" 0 chs env]
      have "\<not> write_ok env (Chart k)" "outcome P2 = Inl (Write_failed (Chart k))"
        "written P2 = chart_files 0 (take k chs)"
        by (simp_all add: F2_def P2_def)
      with Some f1 p1 w1 show thesis
        by (intro charts [of k]) (simp_all add: defs step_simps)
    next
      case f2: None
      with write_charts_find [of "length chs" 0 chs env]
      have p2: "outcome P2 = Inr ()" and w2: "written P2 = chart_files 0 chs"
        by (simp_all add: F2_def P2_def)
      note known = p1 w1 p2 w2 W5_def E5_def
      show thesis
      proof (cases "ct \<noteq> [] \<and> \<not> write_ok env Canvas_text")
        case True
        with known f1 f2 show thesis
          by (intro canvas) (simp_all add: defs step_simps)
      next
        case c3: False
        show thesis
        proof (cases "write_ok env Storage_local")
          case False
          with known c3 f1 f2 show thesis
            by (intro local) (auto simp add: defs step_simps)
        next
          case c4: True
          show thesis
          proof (cases "write_ok env Storage_session")
            case False
            with known c3 c4 f1 f2 show thesis
              by (intro session) (auto simp add: defs step_simps)
          next
            case c5: True
            show thesis
            proof (cases "tracing_stop_ok env")
              case False
              with known c3 c4 c5 f1 f2 show thesis
                by (intro trace) (auto simp add: defs step_simps)
            next
              case c6: True
              show thesis
              proof (cases "write_ok env Summary_json")
                case False
                with known c3 c4 c5 c6 f1 f2 show thesis
                  by (intro summary) (auto simp add: defs step_simps)
              next
                case c7: True
                show thesis
                proof (cases "ctx_close_ok env")
                  case False
                  with known c3 c4 c5 c6 c7 f1 f2 show thesis
                    by (intro ctx) (auto simp add: defs step_simps)
                next
                  case c8: True
                  show thesis
                  proof (cases "browser_close_ok env")
                    case False
                    with known c3 c4 c5 c6 c7 c8 f1 f2 show thesis
                      by (intro browser) (auto simp add: defs step_simps)
                  next
                    case True
                    with known c3 c4 c5 c6 c7 c8 f1 f2 show thesis
                      by (intro ok) (auto simp add: defs step_simps)
                  qed
                qed
              qed
            qed
          qed
        qed
      qed
    qed
  qed
qed

lemma teardown_calls_simps:
  "teardown_calls [] = []"
  "teardown_calls (a # as) = (if is_teardown a then a # teardown_calls as else teardown_calls as)"
  by (simp_all add: teardown_calls_def)

lemma teardown_save_page: "teardown_calls (emitted (save_page env)) = []"
  by (simp add: save_page_framed teardown_calls_simps split: option.splits)

lemmas teardown_simps =
  teardown_calls_append teardown_calls_simps teardown_write_payloads teardown_write_charts
  teardown_pulses teardown_poll teardown_save_page

declare poll.simps [simp del]

text \<open>The polling loop, round by round.\<close>

lemma poll_emitted_Suc:
  "emitted (poll env (Suc n) i c j) =
     (case charts_read env i of
        None \<Rightarrow> [Read_charts, Sleep 1000] @ emitted (poll env n (Suc i) c j)
      | Some c' \<Rightarrow>
          (case json_read env i of
             None \<Rightarrow> [Read_charts, Read_json, Sleep 1000] @ emitted (poll env n (Suc i) c' j)
           | Some j' \<Rightarrow>
               if c' \<noteq> [] \<or> j' \<noteq> [] then [Read_charts, Read_json]
               else [Read_charts, Read_json, Sleep 1000] @ emitted (poll env n (Suc i) c' j')))"
  unfolding poll_Suc
  by (simp add: after_act_framed done_act_framed poll_framed split: option.splits)

lemma poll_outcome_Suc:
  "outcome (poll env (Suc n) i c j) =
     (case charts_read env i of
        None \<Rightarrow> outcome (poll env n (Suc i) c j)
      | Some c' \<Rightarrow>
          (case json_read env i of
             None \<Rightarrow> outcome (poll env n (Suc i) c' j)
           | Some j' \<Rightarrow>
               if c' \<noteq> [] \<or> j' \<noteq> [] then Inr (c', j')
               else outcome (poll env n (Suc i) c' j')))"
  unfolding poll_Suc
  by (simp add: after_act_framed done_act_framed poll_framed split: option.splits)

lemma poll_emitted_0: "emitted (poll env 0 i c j) = []"
  by (simp add: poll_0 ret_framed)

lemma poll_counts_le:
  "count_list (emitted (poll env n i c j)) Read_charts \<le> n
   \<and> count_list (emitted (poll env n i c j)) (Sleep 1000) \<le> n"
proof (induction n arbitrary: i c j)
  case 0
  show ?case by (simp add: poll_emitted_0)
next
  case (Suc n)
  show ?case
    using Suc [of "Suc i"]
    by (auto simp add: poll_emitted_Suc le_SucI split: option.splits)
qed

lemma poll_exhausted:
  "\<forall>k<n. \<not> signal env (i + k) \<Longrightarrow>
     count_list (emitted (poll env n i c j)) Read_charts = n
     \<and> count_list (emitted (poll env n i c j)) (Sleep 1000) = n"
proof (induction n arbitrary: i c j)
  case 0
  show ?case by (simp add: poll_emitted_0)
next
  case (Suc n)
  from Suc.prems have here: "\<not> signal env i" by (metis add.right_neutral zero_less_Suc)
  from Suc.prems have rest: "\<forall>k<n. \<not> signal env (Suc i + k)"
    by (metis Suc_less_eq add_Suc_shift)
  from Suc.IH [OF rest] here show ?case
    by (auto simp add: poll_emitted_Suc signal_def split: option.splits)
qed

lemma poll_exit:
  "k < n \<Longrightarrow> signal env (i + k) \<Longrightarrow> \<forall>l<k. \<not> signal env (i + l) \<Longrightarrow>
     count_list (emitted (poll env n i c j)) Read_charts = Suc k
     \<and> count_list (emitted (poll env n i c j)) (Sleep 1000) = k
     \<and> outcome (poll env n i c j)
         = Inr (the (charts_read env (i + k)), the (json_read env (i + k)))"
proof (induction n arbitrary: i k c j)
  case 0
  then show ?case by simp
next
  case (Suc n)
  show ?case
  proof (cases k)
    case 0
    with Suc.prems show ?thesis
      by (auto simp add: poll_emitted_Suc poll_outcome_Suc signal_def split: option.splits)
  next
    case (Suc k')
    with Suc.prems have here: "\<not> signal env i" by (metis add.right_neutral zero_less_Suc)
    from Suc Suc.prems have a: "k' < n" and b: "signal env (Suc i + k')"
      and c: "\<forall>l<k'. \<not> signal env (Suc i + l)"
      by (auto simp add: add_Suc_shift)
    from Suc.IH [OF a b c] here Suc show ?thesis
      by (auto simp add: poll_emitted_Suc poll_outcome_Suc signal_def split: option.splits)
  qed
qed

text \<open>\<open>main\<close> itself, when navigation returns and when it raises.\<close>

lemma main_actions:
  "goto_ok env \<Longrightarrow>
     actions (snd (main env))
       = [Playwright_start, Launch_browser, Launch_persistent_context, Add_init_script,
          Tracing_start, New_page, Goto, Print_loaded]
         @ emitted (pulses env 8 0) @ emitted (poll env 75 0 [] [])
         @ [Read_canvas_text, Read_local_storage, Read_session_storage]
         @ emitted (outputs env) @ [Playwright_stop]"
  by (simp add: main_eq session_nf)

lemma main_aborted:
  "\<not> goto_ok env \<Longrightarrow>
     main env = (Inl Navigation_failed,
       \<lparr>files = [],
        actions = [Playwright_start, Launch_browser, Launch_persistent_context, Add_init_script,
                   Tracing_start, New_page, Goto, Playwright_stop]\<rparr>)"
  by (simp add: main_eq session_nf)

lemma main_result:
  "goto_ok env \<Longrightarrow> fst (main env) = outcome (outputs env)
     \<and> files (snd (main env)) = written (outputs env)"
  by (simp add: main_eq session_nf)

text \<open>
  The run ends at the first statement that raises: the result, the files and the
  teardown calls are those of \<open>first_failure\<close>.
\<close>

lemma expected_files_split:
  "expected_files env
     = files_before_trace env
       @ [(Trace_zip, Trace), (Summary_json, Summary_of (summary_of env))]"
  by (simp add: expected_files_def files_before_trace_def)

lemma ends_with_iff:
  "(ends_with f = Inl e) = (f = Some e)" "(ends_with f = Inr u) = (f = None)"
  by (cases f; simp add: ends_with_def)+

lemma main_ends:
  "fst (main env) = ends_with (first_failure env)
   \<and> files (snd (main env)) = written_until env (first_failure env)
   \<and> teardown_calls (actions (snd (main env))) = teardown_before (first_failure env)"
proof (cases "goto_ok env")
  case False
  then have "first_failure env = Some Navigation_failed" by (simp add: first_failure_def)
  with False show ?thesis
    by (simp add: main_aborted ends_with_def teardown_calls_simps)
next
  case True
  note run = main_eq session_nf True teardown_simps ends_with_def summary_of_def
    merged_json_def expected_files_split files_before_trace_def
    save_page_framed [THEN conjunct2, THEN conjunct2, THEN conjunct1]
    save_screenshot_framed [THEN conjunct2, THEN conjunct2, THEN conjunct1]
  show ?thesis
  proof (cases rule: outputs_cases [of env])
    case (payloads k)
    with True have "first_failure env = Some (Write_failed (Xhr k))"
      by (simp add: first_failure_def merged_json_def)
    with payloads show ?thesis by (simp add: run)
  next
    case (charts k)
    with True have "first_failure env = Some (Write_failed (Chart k))"
      by (simp add: first_failure_def merged_json_def)
    with charts show ?thesis by (simp add: run)
  next
    case canvas
    with True have "first_failure env = Some (Write_failed Canvas_text)"
      by (simp add: first_failure_def merged_json_def)
    with canvas show ?thesis by (simp add: run)
  next
    case local
    with True have "first_failure env = Some (Write_failed Storage_local)"
      by (auto simp add: first_failure_def merged_json_def)
    with local show ?thesis by (simp add: run)
  next
    case session
    with True have "first_failure env = Some (Write_failed Storage_session)"
      by (auto simp add: first_failure_def merged_json_def)
    with session show ?thesis by (simp add: run)
  next
    case trace
    with True have "first_failure env = Some Tracing_stop_failed"
      by (auto simp add: first_failure_def merged_json_def)
    with trace show ?thesis by (simp add: run)
  next
    case summary
    with True have "first_failure env = Some (Write_failed Summary_json)"
      by (auto simp add: first_failure_def merged_json_def)
    with summary show ?thesis by (simp add: run)
  next
    case ctx
    with True have "first_failure env = Some Ctx_close_failed"
      by (auto simp add: first_failure_def merged_json_def)
    with ctx show ?thesis by (simp add: run)
  next
    case browser
    with True have "first_failure env = Some Browser_close_failed"
      by (auto simp add: first_failure_def merged_json_def)
    with browser show ?thesis by (simp add: run)
  next
    case ok
    with True have "first_failure env = None"
      by (auto simp add: first_failure_def merged_json_def)
    with ok show ?thesis by (simp add: run)
  qed
qed

lemma main_success:
  assumes "fst (main env) = Inr u"
  shows "first_failure env = None \<and> files (snd (main env)) = expected_files env"
proof -
  from assms main_ends [of env] have "first_failure env = None"
    by (simp add: ends_with_iff)
  with main_ends [of env] show ?thesis by simp
qed

lemma first_failure_None:
  assumes "goto_ok env" and "\<forall>n. n \<noteq> Page_html \<longrightarrow> write_ok env n"
    and "tracing_stop_ok env" and "ctx_close_ok env" and "browser_close_ok env"
  shows "first_failure env = None"
proof -
  have "find (\<lambda>k. \<not> write_ok env (Xhr k)) xs = None"
    and "find (\<lambda>k. \<not> write_ok env (Chart k)) xs = None" for xs
    using assms(2) by (simp_all add: find_None_iff)
  with assms show ?thesis by (simp add: first_failure_def)
qed

lemma main_succeeds:
  assumes "goto_ok env" and "\<forall>n. n \<noteq> Page_html \<longrightarrow> write_ok env n"
    and "tracing_stop_ok env" and "ctx_close_ok env" and "browser_close_ok env"
  shows "fst (main env) = Inr ()"
  using first_failure_None [OF assms] main_ends [of env] by (simp add: ends_with_def)

lemma summary_reached_files:
  "summary_reached f \<Longrightarrow> written_until env f = expected_files env"
  by (cases f rule: summary_reached.cases) simp_all

text \<open>What the guarded steps do has no part in where the run ends.\<close>

lemma poll_cong:
  assumes "charts_read e' = charts_read e" and "json_read e' = json_read e"
  shows "poll e' n i c j = poll e n i c j"
  by (induction n arbitrary: i c j) (simp_all add: poll_0 poll_Suc assms split: option.splits)

lemma first_failure_guarded:
  "first_failure (env\<lparr>page_content := p, screenshot_ok := b,
                     write_ok := (write_ok env)(Page_html := w)\<rparr>) = first_failure env"
proof -
  let ?e = "env\<lparr>page_content := p, screenshot_ok := b, write_ok := (write_ok env)(Page_html := w)\<rparr>"
  have "polled ?e = polled env"
    by (simp add: polled_def poll_cong [of ?e env])
  moreover have "json_payloads ?e = json_payloads env"
    by (simp add: json_payloads_def)
  moreover have "canvas_text_of ?e = canvas_text_of env"
    by (simp add: canvas_text_of_def)
  ultimately show ?thesis
    by (simp add: first_failure_def merged_json_def cong: option.case_cong if_cong)
qed

text \<open>The example sessions.\<close>

lemma poll_quiet:
  "\<forall>k. charts_read env k = Some [] \<and> json_read env k = Some [] \<Longrightarrow>
     outcome (poll env n i [] []) = Inr ([], [])"
  by (induction n arbitrary: i) (simp_all add: poll_0 ret_framed poll_outcome_Suc)

lemma polled_quiet: "polled quiet_env = ([], [])"
  using poll_quiet [of quiet_env 75 0] by (simp add: polled_def quiet_env_def)

lemma polled_first:
  "signal env 0 \<Longrightarrow> polled env = (the (charts_read env 0), the (json_read env 0))"
  using poll_exit [of 0 75 env 0 "[]" "[]"] by (simp add: polled_def)

lemma length_req_log: "length (req_log env) = length (requests env)"
proof -
  have "length (foldl (\<lambda>log tr. on_request tr log) acc rs) = length acc + length rs" for acc rs
    by (induction rs arbitrary: acc) (simp_all add: on_request_def)
  then show ?thesis by (simp add: req_log_def)
qed

lemma payload_files_names: "f \<in> set (payload_files i ps) \<Longrightarrow> is_xhr (fst f) \<and> \<not> is_chart (fst f)"
  by (auto simp add: payload_files_def)

lemma chart_files_names: "f \<in> set (chart_files i ps) \<Longrightarrow> is_chart (fst f) \<and> \<not> is_xhr (fst f)"
  by (auto simp add: chart_files_def)

lemma payload_files_fst: "f \<in> set (payload_files i ps) \<Longrightarrow> \<exists>k. fst f = Xhr k"
  by (auto simp add: payload_files_def)

lemma chart_files_fst: "f \<in> set (chart_files i ps) \<Longrightarrow> \<exists>k. fst f = Chart k"
  by (auto simp add: chart_files_def)

lemma filter_all: "(\<And>x. x \<in> set xs \<Longrightarrow> P x) \<Longrightarrow> filter P xs = xs"
  by (induction xs) auto

lemma filter_none: "(\<And>x. x \<in> set xs \<Longrightarrow> \<not> P x) \<Longrightarrow> filter P xs = []"
  by (induction xs) auto

lemma expected_xhr:
  "filter (\<lambda>f. is_xhr (fst f)) (expected_files env) = payload_files 0 (merged_json env)"
  by (simp add: expected_files_def filter_all payload_files_names filter_none chart_files_names
        split: option.splits)

lemma expected_chart:
  "filter (\<lambda>f. is_chart (fst f)) (expected_files env) = chart_files 0 (fst (polled env))"
  by (simp add: expected_files_def filter_all payload_files_names filter_none chart_files_names
        split: option.splits)

lemma outputs_actions:
  "set (emitted (outputs env))
     \<subseteq> range Write_text
       \<union> {Page_content, Take_screenshot, Tracing_stop, Print_complete, Print_summary,
          Ctx_close, Browser_close}"
proof -
  have a: "set (emitted (write_payloads env i ps)) \<subseteq> range Write_text" for i ps
    using write_payloads_facts [of env i ps] by auto
  have b: "set (emitted (write_charts env i ps)) \<subseteq> range Write_text" for i ps
    using write_charts_facts [of env i ps] by auto
  have c: "set (emitted (save_page env)) \<subseteq> range Write_text \<union> {Page_content}"
    by (auto simp add: save_page_framed split: option.splits)
  show ?thesis
    using a [of 0 "json_payloads env @ snd (polled env)"] b [of 0 "fst (polled env)"] c
    by (cases rule: outputs_cases [of env]) auto
qed

lemma count_list_0: "a \<notin> set as \<Longrightarrow> count_list as a = 0"
  by (induction as) auto

lemma main_poll_counts:
  assumes "goto_ok env" and "a = Read_charts \<or> a = Sleep 1000"
  shows "count_list (actions (snd (main env))) a = count_list (emitted (poll env 75 0 [] [])) a"
proof -
  have "a \<notin> set (emitted (pulses env 8 0))"
    using pulses_framed [of env 8 0] assms(2) by auto
  moreover have "a \<notin> set (emitted (outputs env))"
    using outputs_actions [of env] assms(2) by auto
  ultimately show ?thesis
    using assms by (auto simp add: main_actions count_list_0)
qed

lemma main_read_counts:
  assumes "goto_ok env"
    and "a = Read_canvas_text \<or> a = Read_local_storage \<or> a = Read_session_storage"
  shows "count_list (actions (snd (main env))) a = 1"
proof -
  have "a \<notin> set (emitted (pulses env 8 0))"
    using pulses_framed [of env 8 0] assms(2) by auto
  moreover have "a \<notin> set (emitted (poll env 75 0 [] []))"
    using poll_framed [of env 75 0 "[]" "[]"] assms(2) by auto
  moreover have "a \<notin> set (emitted (outputs env))"
    using outputs_actions [of env] assms(2) by auto
  ultimately show ?thesis
    using assms by (auto simp add: main_actions count_list_0)
qed

lemma summary_not_written_early:
  "Summary_json \<notin> fst ` set (written (write_payloads env i ps))"
  "Summary_json \<notin> fst ` set (written (write_charts env i cs))"
  "Summary_json \<notin> fst ` set (payload_files i qs)"
  "Summary_json \<notin> fst ` set (chart_files i cs)"
  "Summary_json \<notin> fst ` set (written (save_page env))"
  "Summary_json \<notin> fst ` set (written (save_screenshot env))"
  using write_payloads_facts [of env i ps] write_charts_facts [of env i cs]
  by (auto simp add: save_page_framed save_screenshot_framed
        dest: payload_files_fst chart_files_fst split: option.splits if_splits)

lemma summary_in_files:
  "(Summary_json \<in> fst ` set (written_until env f)) = summary_reached f"
  by (cases "(env, f)" rule: written_until.cases)
     (auto simp add: expected_files_split files_before_trace_def summary_not_written_early
        image_Un split: option.splits if_splits)

lemma first_failure_outcome:
  assumes "goto_ok env"
  shows "first_failure env = (case outcome (outputs env) of Inl e \<Rightarrow> Some e | Inr u \<Rightarrow> None)"
proof -
  from main_ends [of env] main_result [OF assms]
  have "outcome (outputs env) = ends_with (first_failure env)" by simp
  then show ?thesis by (cases "first_failure env") (simp_all add: ends_with_def)
qed

lemma main_summary_printed:
  "count_list (actions (snd (main env))) Print_summary
     = (if summary_reached (first_failure env) then 1 else 0)"
proof (cases "goto_ok env")
  case False
  then have "first_failure env = Some Navigation_failed" by (simp add: first_failure_def)
  with False show ?thesis by (simp add: main_aborted)
next
  case True
  have "Print_summary \<notin> set (emitted (pulses env 8 0))"
    using pulses_framed [of env 8 0] by auto
  moreover have "Print_summary \<notin> set (emitted (poll env 75 0 [] []))"
    using poll_framed [of env 75 0 "[]" "[]"] by auto
  moreover have "Print_summary \<notin> set (emitted (write_payloads env i ps))" for i ps
    using write_payloads_facts [of env i ps] by auto
  moreover have "Print_summary \<notin> set (emitted (write_charts env i ps))" for i ps
    using write_charts_facts [of env i ps] by auto
  moreover have "Print_summary \<notin> set (emitted (save_page env))"
    by (simp add: save_page_framed split: option.splits)
  ultimately have z:
    "count_list (emitted (pulses env 8 0)) Print_summary = 0"
    "count_list (emitted (poll env 75 0 [] [])) Print_summary = 0"
    "\<And>i ps. count_list (emitted (write_payloads env i ps)) Print_summary = 0"
    "\<And>i ps. count_list (emitted (write_charts env i ps)) Print_summary = 0"
    "count_list (emitted (save_page env)) Print_summary = 0"
    by (simp_all add: count_list_0)
  show ?thesis
    by (cases rule: outputs_cases [of env])
       (simp_all add: main_actions [OF True] first_failure_outcome [OF True] z)
qed

lemma first_failure_after_writes:
  assumes "goto_ok env" and "\<forall>n. n \<noteq> Page_html \<longrightarrow> write_ok env n"
  shows "first_failure env
     = (if \<not> tracing_stop_ok env then Some Tracing_stop_failed
        else if \<not> ctx_close_ok env then Some Ctx_close_failed
        else if \<not> browser_close_ok env then Some Browser_close_failed
        else None)"
proof -
  have "find (\<lambda>k. \<not> write_ok env (Xhr k)) xs = None"
    and "find (\<lambda>k. \<not> write_ok env (Chart k)) xs = None" for xs
    using assms(2) by (simp_all add: find_None_iff)
  with assms show ?thesis by (simp add: first_failure_def)
qed

lemma find_first: "0 < n \<Longrightarrow> P 0 \<Longrightarrow> find P [0..<n] = Some 0"
  by (simp add: upt_conv_Cons)

lemmas example_envs =
  storage_write_fails_def navigation_times_out_def busy_navigation_times_out_def
  json_read_raises_def screenshot_and_markup_fail_def first_payload_write_fails_def
  tracing_stop_fails_def ctx_close_fails_def busy_env_def quiet_env_def

lemma polled_quiet_like:
  "charts_read env = (\<lambda>i. Some []) \<Longrightarrow> json_read env = (\<lambda>i. Some []) \<Longrightarrow> polled env = ([], [])"
  using poll_quiet [of env 75 0] by (simp add: polled_def)

lemma polled_busy_like:
  "charts_read env = charts_read busy_env \<Longrightarrow> json_read env = json_read busy_env
     \<Longrightarrow> polled env = polled busy_env"
  by (simp add: polled_first signal_def busy_env_def quiet_env_def)

lemma json_payloads_none: "responses env = [] \<Longrightarrow> json_payloads env = []"
  by (simp add: json_payloads_def)

lemma json_payloads_busy_like:
  "responses env = responses busy_env \<Longrightarrow> loads env = loads busy_env
     \<Longrightarrow> json_payloads env = json_payloads busy_env"
  by (simp add: json_payloads_def)

lemma polled_busy:
  "polled busy_env = ([JObj [(''lib'', JStr ''echarts'')]], [from_fetch, from_inline])"
  by (subst polled_first) (simp_all add: signal_def busy_env_def quiet_env_def)

lemma json_payloads_busy: "json_payloads busy_env = [from_network]"
  by (simp add: json_payloads_def busy_env_def quiet_env_def served_def on_response_def
        content_type_of_def to_lower_def lower_char_def example_parse_def from_network_def)

lemma quiet_succeeds: "fst (main quiet_env) = Inr ()"
  by (rule main_succeeds) (simp_all add: quiet_env_def)

lemma busy_succeeds: "fst (main busy_env) = Inr ()"
  by (rule main_succeeds) (simp_all add: example_envs)

lemma quiet_fields:
  "json_payloads quiet_env = []" "requests quiet_env = []" "canvas_text_of quiet_env = []"
  "local_storage_of quiet_env = []" "session_storage_of quiet_env = []"
  by (simp_all add: json_payloads_def canvas_text_of_def local_storage_of_def
        session_storage_of_def quiet_env_def)

lemma busy_fields:
  "length (requests busy_env) = 1" "canvas_text_of busy_env = [JStr ''42'']"
  "local_storage_of busy_env = [(''token'', ''x'')]" "session_storage_of busy_env = []"
  by (simp_all add: canvas_text_of_def local_storage_of_def session_storage_of_def example_envs)

lemma quiet_first_failure: "first_failure quiet_env = None"
  by (rule first_failure_None) (simp_all add: quiet_env_def)

lemma busy_first_failure: "first_failure busy_env = None"
  by (rule first_failure_None) (simp_all add: example_envs)

lemma busy_like_expected_files:
  assumes "polled env = polled busy_env" and "json_payloads env = json_payloads busy_env"
    and "canvas_read env = canvas_read busy_env" and "local_read env = local_read busy_env"
    and "session_read env = session_read busy_env"
  shows "files_before_trace env
     = [(Xhr 0, Payload from_network), (Xhr 1, Payload from_fetch), (Xhr 2, Payload from_inline),
        (Chart 0, Chart_config (JObj [(''lib'', JStr ''echarts'')])),
        (Canvas_text, Canvas_list [JStr ''42'']),
        (Storage_local, Storage [(''token'', ''x'')]),
        (Storage_session, Storage [])]
       @ (case page_content env of
            None \<Rightarrow> []
          | Some h \<Rightarrow> if write_ok env Page_html then [(Page_html, Markup h)] else [])
       @ (if screenshot_ok env then [(Screenshot_png, Image)] else [])"
proof -
  have "canvas_text_of env = [JStr ''42'']" "local_storage_of env = [(''token'', ''x'')]"
    "session_storage_of env = []"
    by (simp_all add: canvas_text_of_def local_storage_of_def session_storage_of_def assms
          busy_env_def quiet_env_def)
  then show ?thesis
    by (simp add: files_before_trace_def merged_json_def assms polled_busy json_payloads_busy
          payload_files_def chart_files_def)
qed


section \<open>The collector: the session\<close>

text \<open>
  C2 (as amended). \<open>main\<close> ends at the first statement that raises, in program order:
  the navigation, a numbered payload write, a numbered chart write, the canvas-text
  write, a storage write, \<open>tracing.stop\<close>, the summary write, \<open>ctx.close()\<close> or
  \<open>browser.close()\<close>; the error is its result, and it returns normally only when none
  raises. The teardown calls it has made by then are exactly those that precede that
  statement or are that statement: all three, in the order trace stop, context close,
  browser close, when nothing raises or \<open>browser.close()\<close> does; the trace stop and the
  context close when \<open>ctx.close()\<close> raises; the trace stop alone when \<open>tracing.stop\<close>
  or the summary write raises; none when the navigation or any earlier artifact write
  raises. The one thing done on every path is the exit of the Playwright scope, the last
  call of every run.
\<close>

theorem main_teardown:
  "fst (main env) = ends_with (first_failure env)
   \<and> teardown_calls (actions (snd (main env))) = teardown_before (first_failure env)
   \<and> last (actions (snd (main env))) = Playwright_stop"
  using main_ends [of env] by (simp add: main_eq)

theorem main_teardown_witness:
  "fst (main quiet_env) = Inr ()
   \<and> teardown_calls (actions (snd (main quiet_env))) = [Tracing_stop, Ctx_close, Browser_close]
   \<and> last (actions (snd (main quiet_env))) = Playwright_stop
   \<and> fst (main ctx_close_fails) = Inl Ctx_close_failed
   \<and> teardown_calls (actions (snd (main ctx_close_fails))) = [Tracing_stop, Ctx_close]
   \<and> last (actions (snd (main ctx_close_fails))) = Playwright_stop"
proof -
  have c: "first_failure ctx_close_fails = Some Ctx_close_failed"
    by (subst first_failure_after_writes) (simp_all add: example_envs)
  from main_teardown [of quiet_env] main_teardown [of ctx_close_fails] quiet_first_failure c
  show ?thesis by (simp add: ends_with_def)
qed

text \<open>
  C2 as stated fails: when the write of \<open>storage-local.json\<close> raises, the error leaves
  \<open>main\<close> without the trace being stopped and without either close being called.
\<close>

theorem teardown_skipped_counterexample:
  "fst (main storage_write_fails) = Inl (Write_failed Storage_local)
   \<and> teardown_calls (actions (snd (main storage_write_fails))) = []"
proof -
  have p: "polled storage_write_fails = ([], [])"
    by (rule polled_quiet_like) (simp_all add: example_envs)
  have j: "json_payloads storage_write_fails = []"
    by (rule json_payloads_none) (simp add: example_envs)
  have g: "goto_ok storage_write_fails" by (simp add: example_envs)
  have c: "canvas_text_of storage_write_fails = []" by (simp add: canvas_text_of_def example_envs)
  have w: "\<not> write_ok storage_write_fails Storage_local" by (simp add: example_envs)
  have o: "outcome (outputs storage_write_fails) = Inl (Write_failed Storage_local)"
    and e: "emitted (outputs storage_write_fails) = [Write_text Storage_local]"
    by (simp_all add: outputs_simps p j c w write_payloads_Nil write_charts_Nil)
  from o e show ?thesis
    by (simp add: main_result [OF g] main_actions [OF g] teardown_simps)
qed

text \<open>
  C3 (as amended). When \<open>page.goto\<close> raises, \<open>main\<close> ends with that error: the calls
  made are the launches, the init script, the start of the trace, the new page, the
  navigation and the exit of the Playwright scope, and no file is written.
\<close>

theorem navigation_failure_aborts:
  assumes "\<not> goto_ok env"
  shows "main env = (Inl Navigation_failed,
       \<lparr>files = [],
        actions = [Playwright_start, Launch_browser, Launch_persistent_context, Add_init_script,
                   Tracing_start, New_page, Goto, Playwright_stop]\<rparr>)"
  using assms by (simp add: main_eq session_nf)

theorem navigation_failure_aborts_witness:
  "\<not> goto_ok navigation_times_out
   \<and> main navigation_times_out = (Inl Navigation_failed,
       \<lparr>files = [],
        actions = [Playwright_start, Launch_browser, Launch_persistent_context, Add_init_script,
                   Tracing_start, New_page, Goto, Playwright_stop]\<rparr>)"
proof -
  have h: "\<not> goto_ok navigation_times_out" by (simp add: example_envs)
  from h navigation_failure_aborts [OF h] show ?thesis by blast
qed

text \<open>
  C3 as stated fails: on a page that has data to capture, a navigation that raises is
  followed by no pulse, no polling read, no snapshot read and no artifact.
\<close>

theorem navigation_failure_no_capture_counterexample:
  "fst (main busy_navigation_times_out) = Inl Navigation_failed
   \<and> files (snd (main busy_navigation_times_out)) = []
   \<and> count_list (actions (snd (main busy_navigation_times_out))) Eval_scroll = 0
   \<and> count_list (actions (snd (main busy_navigation_times_out))) Read_charts = 0
   \<and> count_list (actions (snd (main busy_navigation_times_out))) Read_json = 0
   \<and> count_list (actions (snd (main busy_navigation_times_out))) Read_canvas_text = 0
   \<and> count_list (actions (snd (main busy_navigation_times_out))) Read_local_storage = 0
   \<and> count_list (actions (snd (main busy_navigation_times_out))) Read_session_storage = 0"
proof -
  have h: "\<not> goto_ok busy_navigation_times_out" by (simp add: example_envs)
  show ?thesis by (simp add: main_aborted [OF h])
qed

text \<open>
  C4 (as amended). A run makes at most 75 polling rounds and at most 75 one-second
  polling sleeps. When navigation returns and round \<open>k\<close> is the first in which both reads
  return and one of them is non-empty, the loop makes exactly \<open>k + 1\<close> rounds and \<open>k\<close>
  sleeps and ends with what round \<open>k\<close> read. Whenever navigation returns, the calls of
  the run are, in this order: the start-up calls up to the navigation and its report, the
  calls of the eight pulses, the calls of the polling loop, then at once the read of the
  canvas text, of the local storage and of the session storage, then the calls of the
  writes and the teardown, then the exit of the Playwright scope. The pulses make no
  read, the polling loop makes only the charts read, the json read and its sleep, and the
  part after the three snapshot reads makes no read and no sleep; so every polling read
  precedes the three snapshot reads, and each of these is made exactly once.
\<close>

theorem polling_is_bounded:
  "count_list (actions (snd (main env))) Read_charts \<le> 75
   \<and> count_list (actions (snd (main env))) (Sleep 1000) \<le> 75
   \<and> (goto_ok env \<and> k < 75 \<and> signal env k \<and> (\<forall>l<k. \<not> signal env l) \<longrightarrow>
        count_list (actions (snd (main env))) Read_charts = Suc k
        \<and> count_list (actions (snd (main env))) (Sleep 1000) = k
        \<and> polled env = (the (charts_read env k), the (json_read env k)))
   \<and> (goto_ok env \<longrightarrow>
        actions (snd (main env))
          = [Playwright_start, Launch_browser, Launch_persistent_context, Add_init_script,
             Tracing_start, New_page, Goto, Print_loaded]
            @ emitted (pulses env 8 0) @ emitted (poll env 75 0 [] [])
            @ [Read_canvas_text, Read_local_storage, Read_session_storage]
            @ emitted (outputs env) @ [Playwright_stop]
        \<and> set (emitted (pulses env 8 0))
            \<subseteq> {Sleep 1250, Eval_scroll, Wait_for_timeout 250, Eval_resize}
        \<and> set (emitted (poll env 75 0 [] [])) \<subseteq> {Read_charts, Read_json, Sleep 1000}
        \<and> set (emitted (outputs env))
            \<subseteq> range Write_text
              \<union> {Page_content, Take_screenshot, Tracing_stop, Print_complete, Print_summary,
                 Ctx_close, Browser_close}
        \<and> count_list (actions (snd (main env))) Read_canvas_text = 1
        \<and> count_list (actions (snd (main env))) Read_local_storage = 1
        \<and> count_list (actions (snd (main env))) Read_session_storage = 1)"
proof (cases "goto_ok env")
  case False
  then show ?thesis by (simp add: main_aborted)
next
  case True
  have bound: "count_list (actions (snd (main env))) Read_charts \<le> 75
      \<and> count_list (actions (snd (main env))) (Sleep 1000) \<le> 75"
    using poll_counts_le [of env 75 0 "[]" "[]"] by (simp add: main_poll_counts [OF True])
  have exit: "count_list (actions (snd (main env))) Read_charts = Suc k
      \<and> count_list (actions (snd (main env))) (Sleep 1000) = k
      \<and> polled env = (the (charts_read env k), the (json_read env k))"
    if "k < 75" "signal env k" "\<forall>l<k. \<not> signal env l"
    using poll_exit [of k 75 env 0 "[]" "[]"] that
    by (simp add: main_poll_counts [OF True] polled_def)
  have order: "actions (snd (main env))
          = [Playwright_start, Launch_browser, Launch_persistent_context, Add_init_script,
             Tracing_start, New_page, Goto, Print_loaded]
            @ emitted (pulses env 8 0) @ emitted (poll env 75 0 [] [])
            @ [Read_canvas_text, Read_local_storage, Read_session_storage]
            @ emitted (outputs env) @ [Playwright_stop]"
    by (rule main_actions [OF True])
  have parts: "set (emitted (pulses env 8 0))
            \<subseteq> {Sleep 1250, Eval_scroll, Wait_for_timeout 250, Eval_resize}"
    "set (emitted (poll env 75 0 [] [])) \<subseteq> {Read_charts, Read_json, Sleep 1000}"
    using pulses_framed [of env 8 0] poll_framed [of env 75 0 "[]" "[]"] by simp_all
  have reads: "count_list (actions (snd (main env))) Read_canvas_text = 1"
    "count_list (actions (snd (main env))) Read_local_storage = 1"
    "count_list (actions (snd (main env))) Read_session_storage = 1"
    by (simp_all add: main_read_counts [OF True])
  from bound exit order parts outputs_actions [of env] reads show ?thesis
    by blast
qed

theorem polling_is_bounded_witness:
  "count_list (actions (snd (main busy_env))) Read_charts \<le> 75
   \<and> count_list (actions (snd (main busy_env))) (Sleep 1000) \<le> 75
   \<and> goto_ok busy_env \<and> signal busy_env 0
   \<and> count_list (actions (snd (main busy_env))) Read_charts = Suc 0
   \<and> count_list (actions (snd (main busy_env))) (Sleep 1000) = 0
   \<and> polled busy_env = (the (charts_read busy_env 0), the (json_read busy_env 0))
   \<and> actions (snd (main busy_env))
       = [Playwright_start, Launch_browser, Launch_persistent_context, Add_init_script,
          Tracing_start, New_page, Goto, Print_loaded]
         @ emitted (pulses busy_env 8 0)
         @ [Read_charts, Read_json, Read_canvas_text, Read_local_storage, Read_session_storage]
         @ emitted (outputs busy_env) @ [Playwright_stop]
   \<and> count_list (actions (snd (main busy_env))) Read_canvas_text = 1
   \<and> count_list (actions (snd (main busy_env))) Read_local_storage = 1
   \<and> count_list (actions (snd (main busy_env))) Read_session_storage = 1"
proof -
  have g: "goto_ok busy_env" and s: "signal busy_env 0"
    by (simp_all add: signal_def example_envs)
  have r: "charts_read busy_env 0 = Some [JObj [(''lib'', JStr ''echarts'')]]"
    "json_read busy_env 0 = Some [from_fetch, from_inline]"
    by (simp_all add: example_envs)
  have "emitted (poll busy_env (Suc 74) 0 [] []) = [Read_charts, Read_json]"
    unfolding poll_emitted_Suc r by simp
  then have e: "emitted (poll busy_env 75 0 [] []) = [Read_charts, Read_json]" by simp
  have h: "goto_ok busy_env \<and> 0 < (75::nat) \<and> signal busy_env 0
      \<and> (\<forall>l<0. \<not> signal busy_env l)"
    using g s by simp
  note t = polling_is_bounded [of busy_env 0]
  from t have bound: "count_list (actions (snd (main busy_env))) Read_charts \<le> 75
      \<and> count_list (actions (snd (main busy_env))) (Sleep 1000) \<le> 75"
    by blast
  from t h have exit: "count_list (actions (snd (main busy_env))) Read_charts = Suc 0
      \<and> count_list (actions (snd (main busy_env))) (Sleep 1000) = 0
      \<and> polled busy_env = (the (charts_read busy_env 0), the (json_read busy_env 0))"
    by blast
  from t g have "actions (snd (main busy_env))
       = [Playwright_start, Launch_browser, Launch_persistent_context, Add_init_script,
          Tracing_start, New_page, Goto, Print_loaded]
         @ emitted (pulses busy_env 8 0) @ emitted (poll busy_env 75 0 [] [])
         @ [Read_canvas_text, Read_local_storage, Read_session_storage]
         @ emitted (outputs busy_env) @ [Playwright_stop]"
    and reads: "count_list (actions (snd (main busy_env))) Read_canvas_text = 1"
      "count_list (actions (snd (main busy_env))) Read_local_storage = 1"
      "count_list (actions (snd (main busy_env))) Read_session_storage = 1"
    by blast+
  then have order: "actions (snd (main busy_env))
       = [Playwright_start, Launch_browser, Launch_persistent_context, Add_init_script,
          Tracing_start, New_page, Goto, Print_loaded]
         @ emitted (pulses busy_env 8 0)
         @ [Read_charts, Read_json, Read_canvas_text, Read_local_storage, Read_session_storage]
         @ emitted (outputs busy_env) @ [Playwright_stop]"
    by (simp add: e)
  from bound g s exit order reads show ?thesis by blast
qed

text \<open>
  C4 as stated fails: when the json read raises, the test that ends the loop is skipped,
  so the loop goes through all 75 rounds although the charts read of the first round
  (and of every round) returned a non-empty list.
\<close>

theorem polling_misses_charts_counterexample:
  "charts_read json_read_raises 0 = Some [JNull]
   \<and> count_list (actions (snd (main json_read_raises))) Read_charts = 75"
proof -
  have g: "goto_ok json_read_raises" by (simp add: example_envs)
  have n: "\<forall>k<75. \<not> signal json_read_raises (0 + k)"
    by (simp add: signal_def example_envs)
  from poll_exhausted [OF n, of "[]" "[]"] show ?thesis
    by (simp add: main_poll_counts [OF g]) (simp add: example_envs)
qed

lemma first_payload_write_fails_run:
  "fst (main first_payload_write_fails) = Inl (Write_failed (Xhr 0))
   \<and> files (snd (main first_payload_write_fails)) = []"
proof -
  have g: "goto_ok first_payload_write_fails" by (simp add: example_envs)
  have p: "polled first_payload_write_fails = polled busy_env"
    by (rule polled_busy_like) (simp_all add: example_envs)
  have j: "json_payloads first_payload_write_fails = json_payloads busy_env"
    by (rule json_payloads_busy_like) (simp_all add: example_envs)
  have w: "\<not> write_ok first_payload_write_fails (Xhr 0)" by (simp add: example_envs)
  have "outcome (outputs first_payload_write_fails) = Inl (Write_failed (Xhr 0))"
    and "written (outputs first_payload_write_fails) = []"
    by (simp_all add: outputs_simps p j polled_busy json_payloads_busy w write_payloads_Cons)
  then show ?thesis by (simp add: main_result [OF g])
qed

text \<open>
  C7 (as amended). The artifact writes are not independent: \<open>main\<close> ends at the first
  statement that raises (the navigation, a numbered payload write, a numbered chart
  write, the canvas-text write, a storage write, \<open>tracing.stop\<close>, the summary write or a
  close), with that error as its result, and the files it has written are exactly the
  ones whose writes precede that statement; no later artifact is written. The page
  markup and the screenshot are the two isolated artifacts: whatever \<open>page.content()\<close>,
  the write of \<open>page.html\<close> and \<open>page.screenshot\<close> do, the statement at which the run
  ends is the same, and when no other statement raises every other artifact is written.
\<close>

theorem guarded_steps_are_isolated:
  "fst (main env) = ends_with (first_failure env)
   \<and> files (snd (main env)) = written_until env (first_failure env)
   \<and> first_failure (env\<lparr>page_content := p, screenshot_ok := b,
                        write_ok := (write_ok env)(Page_html := w)\<rparr>) = first_failure env"
  using main_ends [of env] by (simp add: first_failure_guarded)

theorem guarded_steps_are_isolated_witness:
  "\<not> screenshot_ok screenshot_and_markup_fail \<and> page_content screenshot_and_markup_fail = None
   \<and> fst (main screenshot_and_markup_fail) = Inr ()
   \<and> files (snd (main screenshot_and_markup_fail))
       = [(Xhr 0, Payload from_network), (Xhr 1, Payload from_fetch), (Xhr 2, Payload from_inline),
          (Chart 0, Chart_config (JObj [(''lib'', JStr ''echarts'')])),
          (Canvas_text, Canvas_list [JStr ''42'']),
          (Storage_local, Storage [(''token'', ''x'')]),
          (Storage_session, Storage []),
          (Trace_zip, Trace),
          (Summary_json, Summary_of (summary_of screenshot_and_markup_fail))]
   \<and> first_failure first_payload_write_fails = Some (Write_failed (Xhr 0))
   \<and> fst (main first_payload_write_fails) = Inl (Write_failed (Xhr 0))
   \<and> files (snd (main first_payload_write_fails)) = []"
proof -
  have n: "first_failure screenshot_and_markup_fail = None"
    by (rule first_failure_None) (simp_all add: example_envs)
  have p: "polled screenshot_and_markup_fail = polled busy_env"
    by (rule polled_busy_like) (simp_all add: example_envs)
  have j: "json_payloads screenshot_and_markup_fail = json_payloads busy_env"
    by (rule json_payloads_busy_like) (simp_all add: example_envs)
  have f: "\<not> screenshot_ok screenshot_and_markup_fail"
    "page_content screenshot_and_markup_fail = None"
    by (simp_all add: example_envs)
  have "files_before_trace screenshot_and_markup_fail
      = [(Xhr 0, Payload from_network), (Xhr 1, Payload from_fetch), (Xhr 2, Payload from_inline),
          (Chart 0, Chart_config (JObj [(''lib'', JStr ''echarts'')])),
          (Canvas_text, Canvas_list [JStr ''42'']),
          (Storage_local, Storage [(''token'', ''x'')]),
          (Storage_session, Storage [])]"
    by (subst busy_like_expected_files [OF p j]) (simp_all add: f, simp_all add: example_envs)
  with guarded_steps_are_isolated [of screenshot_and_markup_fail] n
  have first: "fst (main screenshot_and_markup_fail) = Inr ()
      \<and> files (snd (main screenshot_and_markup_fail))
        = [(Xhr 0, Payload from_network), (Xhr 1, Payload from_fetch), (Xhr 2, Payload from_inline),
           (Chart 0, Chart_config (JObj [(''lib'', JStr ''echarts'')])),
           (Canvas_text, Canvas_list [JStr ''42'']),
           (Storage_local, Storage [(''token'', ''x'')]),
           (Storage_session, Storage []),
           (Trace_zip, Trace),
           (Summary_json, Summary_of (summary_of screenshot_and_markup_fail))]"
    by (simp add: ends_with_def expected_files_split)
  have g: "goto_ok first_payload_write_fails" "\<not> write_ok first_payload_write_fails (Xhr 0)"
    by (simp_all add: example_envs)
  have q: "polled first_payload_write_fails = polled busy_env"
    by (rule polled_busy_like) (simp_all add: example_envs)
  have k: "json_payloads first_payload_write_fails = json_payloads busy_env"
    by (rule json_payloads_busy_like) (simp_all add: example_envs)
  have "find (\<lambda>k. \<not> write_ok first_payload_write_fails (Xhr k))
          [0..<length (merged_json first_payload_write_fails)] = Some 0"
    by (rule find_first) (simp_all add: g merged_json_def q k polled_busy json_payloads_busy)
  with g have m: "first_failure first_payload_write_fails = Some (Write_failed (Xhr 0))"
    by (simp add: first_failure_def)
  with guarded_steps_are_isolated [of first_payload_write_fails]
  have second: "fst (main first_payload_write_fails) = Inl (Write_failed (Xhr 0))
      \<and> files (snd (main first_payload_write_fails)) = []"
    by (simp add: ends_with_def payload_files_def)
  from f first m second show ?thesis by blast
qed

text \<open>
  C7 as stated fails: when the write of \<open>xhr-00.json\<close> raises, no other artifact is
  written, neither the two remaining payloads nor the chart, the canvas text, the
  storage snapshots, the trace or the summary.
\<close>

theorem unguarded_write_blocks_counterexample:
  "fst (main first_payload_write_fails) = Inl (Write_failed (Xhr 0))
   \<and> files (snd (main first_payload_write_fails)) = []"
  by (rule first_payload_write_fails_run)

text \<open>
  C8 (as amended). \<open>main\<close> ends at the first statement that raises, with that error as
  its result, and returns nothing. The summary file is among the files of the run
  exactly when the run gets past the summary write, that is when nothing raises or only
  a close does; in exactly those runs the summary is printed, once. It is then the last
  file written; the numbered payload files are the network log followed by the in-page
  json list, in order and with nothing removed, and the chart files are the charts read.
  The json count of the summary is the sum of the lengths of the two lists, the chart
  count is the number of charts read, the canvas-text and storage counts are the lengths
  of what was read, and the request count is the number of requests seen.
\<close>

theorem summary_reflects_capture:
  "fst (main env) = ends_with (first_failure env)
   \<and> (Summary_json \<in> fst ` set (files (snd (main env)))) = summary_reached (first_failure env)
   \<and> count_list (actions (snd (main env))) Print_summary
       = (if summary_reached (first_failure env) then 1 else 0)
   \<and> (summary_reached (first_failure env) \<longrightarrow>
        last (files (snd (main env))) = (Summary_json, Summary_of (summary_of env))
        \<and> filter (\<lambda>f. is_xhr (fst f)) (files (snd (main env)))
            = payload_files 0 (json_payloads env @ snd (polled env))
        \<and> filter (\<lambda>f. is_chart (fst f)) (files (snd (main env)))
            = chart_files 0 (fst (polled env)))
   \<and> count_json (summary_counts (summary_of env))
       = length (json_payloads env) + length (snd (polled env))
   \<and> count_chartConfigs (summary_counts (summary_of env)) = length (fst (polled env))
   \<and> count_canvasText (summary_counts (summary_of env)) = length (canvas_text_of env)
   \<and> count_localStorageKeys (summary_counts (summary_of env)) = length (local_storage_of env)
   \<and> count_sessionStorageKeys (summary_counts (summary_of env))
       = length (session_storage_of env)
   \<and> count_req (summary_counts (summary_of env)) = length (requests env)"
proof -
  have fs: "files (snd (main env)) = written_until env (first_failure env)"
    using main_ends [of env] by simp
  have a: "fst (main env) = ends_with (first_failure env)"
    using main_ends [of env] by simp
  have b: "(Summary_json \<in> fst ` set (files (snd (main env))))
      = summary_reached (first_failure env)"
    unfolding fs by (rule summary_in_files)
  have c: "last (files (snd (main env))) = (Summary_json, Summary_of (summary_of env))
      \<and> filter (\<lambda>f. is_xhr (fst f)) (files (snd (main env)))
          = payload_files 0 (json_payloads env @ snd (polled env))
      \<and> filter (\<lambda>f. is_chart (fst f)) (files (snd (main env)))
          = chart_files 0 (fst (polled env))"
    if "summary_reached (first_failure env)"
  proof -
    from that fs have "files (snd (main env)) = expected_files env"
      by (simp add: summary_reached_files)
    moreover have "last (expected_files env) = (Summary_json, Summary_of (summary_of env))"
      by (simp add: expected_files_def)
    ultimately show ?thesis
      by (simp add: expected_xhr expected_chart merged_json_def)
  qed
  have d: "count_json (summary_counts (summary_of env))
       = length (json_payloads env) + length (snd (polled env))
   \<and> count_chartConfigs (summary_counts (summary_of env)) = length (fst (polled env))
   \<and> count_canvasText (summary_counts (summary_of env)) = length (canvas_text_of env)
   \<and> count_localStorageKeys (summary_counts (summary_of env)) = length (local_storage_of env)
   \<and> count_sessionStorageKeys (summary_counts (summary_of env))
       = length (session_storage_of env)
   \<and> count_req (summary_counts (summary_of env)) = length (requests env)"
    by (simp add: merged_json_def summary_of_def make_summary_def length_req_log)
  from a b c d main_summary_printed [of env] show ?thesis by blast
qed

theorem summary_reflects_capture_witness:
  "summary_reached (first_failure quiet_env)
   \<and> fst (main quiet_env) = Inr ()
   \<and> last (files (snd (main quiet_env))) = (Summary_json, Summary_of (summary_of quiet_env))
   \<and> count_list (actions (snd (main quiet_env))) Print_summary = 1
   \<and> summary_counts (summary_of quiet_env)
       = \<lparr>count_req = 0, count_json = 0, count_chartConfigs = 0, count_canvasText = 0,
          count_localStorageKeys = 0, count_sessionStorageKeys = 0\<rparr>
   \<and> summary_reached (first_failure busy_env)
   \<and> fst (main busy_env) = Inr ()
   \<and> last (files (snd (main busy_env))) = (Summary_json, Summary_of (summary_of busy_env))
   \<and> filter (\<lambda>f. is_xhr (fst f)) (files (snd (main busy_env)))
       = [(Xhr 0, Payload from_network), (Xhr 1, Payload from_fetch), (Xhr 2, Payload from_inline)]
   \<and> summary_counts (summary_of busy_env)
       = \<lparr>count_req = 1, count_json = 3, count_chartConfigs = 1, count_canvasText = 1,
          count_localStorageKeys = 1, count_sessionStorageKeys = 0\<rparr>"
proof -
  have cq: "summary_counts (summary_of quiet_env)
       = \<lparr>count_req = 0, count_json = 0, count_chartConfigs = 0, count_canvasText = 0,
          count_localStorageKeys = 0, count_sessionStorageKeys = 0\<rparr>"
    by (simp add: summary_of_def make_summary_def merged_json_def polled_quiet quiet_fields
          length_req_log)
  have cb: "summary_counts (summary_of busy_env)
       = \<lparr>count_req = 1, count_json = 3, count_chartConfigs = 1, count_canvasText = 1,
          count_localStorageKeys = 1, count_sessionStorageKeys = 0\<rparr>"
    by (simp add: summary_of_def make_summary_def merged_json_def polled_busy
          json_payloads_busy busy_fields length_req_log)
  have rq: "summary_reached (first_failure quiet_env)"
    and rb: "summary_reached (first_failure busy_env)"
    by (simp_all add: quiet_first_failure busy_first_failure)
  from summary_reflects_capture [of quiet_env] rq quiet_first_failure
  have q: "fst (main quiet_env) = Inr ()
      \<and> last (files (snd (main quiet_env))) = (Summary_json, Summary_of (summary_of quiet_env))
      \<and> count_list (actions (snd (main quiet_env))) Print_summary = 1"
    by (simp add: ends_with_def)
  from summary_reflects_capture [of busy_env] rb busy_first_failure
  have b: "fst (main busy_env) = Inr ()
      \<and> last (files (snd (main busy_env))) = (Summary_json, Summary_of (summary_of busy_env))
      \<and> filter (\<lambda>f. is_xhr (fst f)) (files (snd (main busy_env)))
          = [(Xhr 0, Payload from_network), (Xhr 1, Payload from_fetch),
             (Xhr 2, Payload from_inline)]"
    by (simp add: ends_with_def json_payloads_busy polled_busy payload_files_def)
  from rq q cq rb b cb show ?thesis by blast
qed

text \<open>
  C8 as stated fails: a summary is not always produced. When \<open>tracing.stop\<close> raises, the
  run ends with the storage snapshots, the page markup and the screenshot written and no
  summary.
\<close>

theorem summary_missing_counterexample:
  "fst (main tracing_stop_fails) = Inl Tracing_stop_failed
   \<and> files (snd (main tracing_stop_fails))
       = [(Storage_local, Storage []), (Storage_session, Storage []),
          (Page_html, Markup ''<html></html>''), (Screenshot_png, Image)]"
proof -
  have g: "goto_ok tracing_stop_fails" by (simp add: example_envs)
  have p: "polled tracing_stop_fails = ([], [])"
    by (rule polled_quiet_like) (simp_all add: example_envs)
  have j: "json_payloads tracing_stop_fails = []"
    by (rule json_payloads_none) (simp add: example_envs)
  have f: "canvas_text_of tracing_stop_fails = []" "local_storage_of tracing_stop_fails = []"
    "session_storage_of tracing_stop_fails = []" "write_ok tracing_stop_fails = (\<lambda>n. True)"
    "page_content tracing_stop_fails = Some ''<html></html>''"
    "screenshot_ok tracing_stop_fails" "\<not> tracing_stop_ok tracing_stop_fails"
    by (simp_all add: canvas_text_of_def local_storage_of_def session_storage_of_def
          example_envs)
  have "outcome (outputs tracing_stop_fails) = Inl Tracing_stop_failed"
    and "written (outputs tracing_stop_fails)
       = [(Storage_local, Storage []), (Storage_session, Storage []),
          (Page_html, Markup ''<html></html>''), (Screenshot_png, Image)]"
    by (simp_all add: outputs_simps p j f write_payloads_Nil write_charts_Nil)
  then show ?thesis by (simp add: main_result [OF g])
qed

text \<open>
  C9 (as amended). A run that returns has written \<open>canvas-text.json\<close> once when the
  canvas text read was non-empty and not at all when it was empty; it has written each
  of the two storage snapshots once.
\<close>

theorem canvas_text_file_only_when_captured:
  assumes "fst (main env) = Inr ()"
  shows "length (filter (\<lambda>f. fst f = Canvas_text) (files (snd (main env))))
           = (if canvas_text_of env = [] then 0 else 1)
    \<and> length (filter (\<lambda>f. fst f = Storage_local) (files (snd (main env)))) = 1
    \<and> length (filter (\<lambda>f. fst f = Storage_session) (files (snd (main env)))) = 1"
proof -
  have p: "filter (\<lambda>f. fst f = n) (payload_files i ps) = []" if "\<not> is_xhr n" for n i ps
    using that by (intro filter_none) (auto dest: payload_files_fst)
  have c: "filter (\<lambda>f. fst f = n) (chart_files i ps) = []" if "\<not> is_chart n" for n i ps
    using that by (intro filter_none) (auto dest: chart_files_fst)
  from main_success [OF assms] have "files (snd (main env)) = expected_files env" by simp
  then show ?thesis
    by (simp add: expected_files_def p c split: option.splits)
qed

theorem canvas_text_file_only_when_captured_witness:
  "fst (main busy_env) = Inr ()
   \<and> canvas_text_of busy_env = [JStr ''42'']
   \<and> length (filter (\<lambda>f. fst f = Canvas_text) (files (snd (main busy_env)))) = 1
   \<and> length (filter (\<lambda>f. fst f = Storage_local) (files (snd (main busy_env)))) = 1
   \<and> length (filter (\<lambda>f. fst f = Storage_session) (files (snd (main busy_env)))) = 1"
proof -
  from canvas_text_file_only_when_captured [OF busy_succeeds] busy_succeeds busy_fields
  show ?thesis by simp
qed

text \<open>
  C9 as stated fails: a run on a page that drew no text returns normally and has
  written no canvas-text file.
\<close>

theorem canvas_text_file_absent_counterexample:
  "fst (main quiet_env) = Inr ()
   \<and> filter (\<lambda>f. fst f = Canvas_text) (files (snd (main quiet_env))) = []"
proof -
  from main_success [OF quiet_succeeds]
  have "files (snd (main quiet_env)) = expected_files quiet_env" by simp
  then show ?thesis
    using quiet_succeeds
    by (simp add: expected_files_def merged_json_def polled_quiet payload_files_def
          chart_files_def quiet_fields split: option.splits)
qed

end
